theory Spec2Isabelle
  imports Complex_Main
begin

section \<open>Values of the scripts\<close>

text \<open>
  The scripts work on what Python's \<^verbatim>\<open>json.load\<close> returns: \<^verbatim>\<open>None\<close>, booleans,
  integers, floats, strings, lists and dicts with string keys. A dict is an association
  list in insertion order; a loaded dict has distinct keys, and every operation below
  reads and writes the first entry of a key, so that it keeps them distinct. A float is
  the rational number it denotes: no script computes with the floats of a document, they
  are only moved and handed to the projection library.
\<close>

datatype json =
    JNull
  | JBool bool
  | JInt int
  | JFloat rat
  | JStr string
  | JArr "json list"
  | JObj "(string \<times> json) list"

text \<open>The exceptions the scripts can raise, by class (and the key of a \<^verbatim>\<open>KeyError\<close>).\<close>

datatype py_error =
    KeyError string
  | KeyErrorInt nat
  | TypeError
  | IndexError
  | RuntimeError
  | AttributeError
  | ValueError
  | FileNotFoundError string
  | JSONDecodeError
  | LibraryError string

type_synonym 'a result = "py_error + 'a"

text \<open>\<^verbatim>\<open>d[key]\<close> and \<^verbatim>\<open>d.get(key, default)\<close> on a dict.\<close>

fun dict_get :: "(string \<times> json) list \<Rightarrow> string \<Rightarrow> json \<Rightarrow> json" where
  "dict_get d k dflt = (case map_of d k of None \<Rightarrow> dflt | Some v \<Rightarrow> v)"

text \<open>\<^verbatim>\<open>d[key] = v\<close>: an existing key keeps its place, a new key goes last.\<close>

fun dict_set :: "(string \<times> json) list \<Rightarrow> string \<Rightarrow> json \<Rightarrow> (string \<times> json) list" where
  "dict_set [] k v = [(k, v)]"
| "dict_set ((k', v') # d) k v = (if k' = k then (k, v) # d else (k', v') # dict_set d k v)"

text \<open>\<^verbatim>\<open>x[key]\<close> with a string key: only a dict takes one.\<close>

fun getitem :: "json \<Rightarrow> string \<Rightarrow> json result" where
  "getitem (JObj d) k = (case map_of d k of None \<Rightarrow> Inl (KeyError k) | Some v \<Rightarrow> Inr v)"
| "getitem _ k = Inl TypeError"

text \<open>
  \<^verbatim>\<open>x[i]\<close> with a non-negative integer: an element of a list, a character of a string;
  a loaded dict has no integer key.
\<close>

fun getindex :: "json \<Rightarrow> nat \<Rightarrow> json result" where
  "getindex (JArr xs) i = (if i < length xs then Inr (xs ! i) else Inl IndexError)"
| "getindex (JStr s) i = (if i < length s then Inr (JStr [s ! i]) else Inl IndexError)"
| "getindex (JObj d) i = Inl (KeyErrorInt i)"
| "getindex _ i = Inl TypeError"

text \<open>
  What a \<^verbatim>\<open>for\<close> loop (and \<^verbatim>\<open>enumerate\<close>) iterates over: the elements of a list, the
  characters of a string, the keys of a dict; anything else is not iterable.
\<close>

fun py_iter :: "json \<Rightarrow> json list result" where
  "py_iter (JArr xs) = Inr xs"
| "py_iter (JStr s) = Inr (map (\<lambda>c. JStr [c]) s)"
| "py_iter (JObj d) = Inr (map (\<lambda>kv. JStr (fst kv)) d)"
| "py_iter _ = Inl TypeError"

text \<open>Truth value of an object, as \<^verbatim>\<open>if x:\<close> tests it.\<close>

fun truthy :: "json \<Rightarrow> bool" where
  "truthy JNull = False"
| "truthy (JBool b) = b"
| "truthy (JInt i) = (i \<noteq> 0)"
| "truthy (JFloat q) = (q \<noteq> 0)"
| "truthy (JStr s) = (s \<noteq> [])"
| "truthy (JArr xs) = (xs \<noteq> [])"
| "truthy (JObj d) = (d \<noteq> [])"

text \<open>Decimal digits of a natural number and of an integer, as \<^verbatim>\<open>str\<close> prints them.\<close>

definition digit :: "nat \<Rightarrow> char" where
  "digit n = ''0123456789'' ! n"

fun str_nat :: "nat \<Rightarrow> string" where
  "str_nat n = (if n < 10 then [digit n] else str_nat (n div 10) @ [digit (n mod 10)])"

definition str_int :: "int \<Rightarrow> string" where
  "str_int i = (if i < 0 then CHR ''-'' # str_nat (nat (- i)) else str_nat (nat i))"

text \<open>
  \<^verbatim>\<open>str(x)\<close>, as an f-string formats a value. The text of a float, a list or a dict is the
  interpreter's (\<^verbatim>\<open>repr\<close>); it is the parameter \<open>other\<close>.
\<close>

fun py_str :: "(json \<Rightarrow> string) \<Rightarrow> json \<Rightarrow> string" where
  "py_str other (JStr s) = s"
| "py_str other (JInt i) = str_int i"
| "py_str other JNull = ''None''"
| "py_str other (JBool b) = (if b then ''True'' else ''False'')"
| "py_str other v = other v"

text \<open>A loop body run over a list, stopping at the first exception.\<close>

fun map_result :: "('a \<Rightarrow> 'b result) \<Rightarrow> 'a list \<Rightarrow> 'b list result" where
  "map_result f [] = Inr []"
| "map_result f (x # xs) =
     (case f x of
        Inl e \<Rightarrow> Inl e
      | Inr y \<Rightarrow> (case map_result f xs of Inl e \<Rightarrow> Inl e | Inr ys \<Rightarrow> Inr (y # ys)))"

section \<open>The files and the console\<close>

text \<open>
  A file holds text that \<^verbatim>\<open>json.load\<close> parses to a value, or text that it rejects. A
  printed line is its fixed text (without the leading glyph) and the values formatted
  into it.
\<close>

datatype content = Parsed json | Unparsable

datatype line =
    Say string
  | SayNat string nat
  | SayVal string json
  | SayError py_error
  | SayLookupError string string py_error
  | Traceback

record world =
  files :: "string \<Rightarrow> content option"
  console :: "line list"

definition load_json :: "world \<Rightarrow> string \<Rightarrow> json result" where
  "load_json w path =
     (case files w path of
        None \<Rightarrow> Inl (FileNotFoundError path)
      | Some Unparsable \<Rightarrow> Inl JSONDecodeError
      | Some (Parsed v) \<Rightarrow> Inr v)"

definition dump_json :: "world \<Rightarrow> string \<Rightarrow> json \<Rightarrow> world" where
  "dump_json w path v = w\<lparr>files := (files w)(path \<mapsto> Parsed v)\<rparr>"

definition say :: "world \<Rightarrow> line \<Rightarrow> world" where
  "say w l = w\<lparr>console := console w @ [l]\<rparr>"

section \<open>split\_opportunity\_zones.py\<close>

text \<open>
  The dict literal of one part. Its entries are evaluated in order; only
  \<^verbatim>\<open>**feature.get('properties', {})\<close> can raise, when the value is not a dict.
  \<open>i\<close> is the index \<^verbatim>\<open>enumerate\<close> gives, \<open>total_polygons\<close> is \<^verbatim>\<open>len(multipolygon_coords)\<close>.
\<close>

fun new_feature ::
  "(json \<Rightarrow> string) \<Rightarrow> (string \<times> json) list \<Rightarrow> nat \<Rightarrow> json \<Rightarrow> nat \<Rightarrow> json result" where
  "new_feature other feature i polygon_coords total_polygons =
     (case dict_get feature ''properties'' (JObj []) of
        JObj props \<Rightarrow>
          Inr (JObj
            [(''type'', JStr ''Feature''),
             (''id'', JStr (py_str other (dict_get feature ''id'' (JStr ''unknown'')) @ ''_'' @ str_nat i)),
             (''geometry'', JObj [(''type'', JStr ''Polygon''), (''coordinates'', polygon_coords)]),
             (''properties'',
                JObj (dict_set (dict_set props ''polygon_index'' (JInt (int i)))
                        ''total_polygons'' (JInt (int total_polygons))))])
      | _ \<Rightarrow> Inl TypeError)"

text \<open>
  The inner loop, \<^verbatim>\<open>for i, polygon_coords in enumerate(multipolygon_coords)\<close>, appending to
  \<^verbatim>\<open>new_features\<close>.
\<close>

fun split_parts ::
  "(json \<Rightarrow> string) \<Rightarrow> (string \<times> json) list \<Rightarrow> nat \<Rightarrow> json list \<Rightarrow> nat \<Rightarrow> json list
     \<Rightarrow> json list result" where
  "split_parts other feature total_polygons [] i new_features = Inr new_features"
| "split_parts other feature total_polygons (polygon_coords # rest) i new_features =
     (case new_feature other feature i polygon_coords total_polygons of
        Inl e \<Rightarrow> Inl e
      | Inr nf \<Rightarrow> split_parts other feature total_polygons rest (Suc i) (new_features @ [nf]))"

text \<open>The body of the outer loop for one feature.\<close>

definition split_feature :: "(json \<Rightarrow> string) \<Rightarrow> json \<Rightarrow> json list \<Rightarrow> json list result" where
  "split_feature other feature new_features =
     (case getitem feature ''geometry'' of
        Inl e \<Rightarrow> Inl e
      | Inr geometry \<Rightarrow>
          (case getitem geometry ''type'' of
             Inl e \<Rightarrow> Inl e
           | Inr ty \<Rightarrow>
               if ty = JStr ''MultiPolygon'' then
                 (case getitem geometry ''coordinates'' of
                    Inl e \<Rightarrow> Inl e
                  | Inr multipolygon_coords \<Rightarrow>
                      (case py_iter multipolygon_coords of
                         Inl e \<Rightarrow> Inl e
                       | Inr parts \<Rightarrow>
                           (case feature of
                              JObj f \<Rightarrow> split_parts other f (length parts) parts 0 new_features
                            | _ \<Rightarrow> Inl TypeError)))
               else Inr (new_features @ [feature])))"

fun split_features :: "(json \<Rightarrow> string) \<Rightarrow> json list \<Rightarrow> json list \<Rightarrow> json list result" where
  "split_features other [] new_features = Inr new_features"
| "split_features other (feature # rest) new_features =
     (case split_feature other feature new_features of
        Inl e \<Rightarrow> Inl e
      | Inr new_features' \<Rightarrow> split_features other rest new_features')"

text \<open>
  From the loaded document to the document that is written: the loop over
  \<^verbatim>\<open>geojson['features']\<close>, then the new dict, which reads \<^verbatim>\<open>geojson['crs']\<close>.
\<close>

definition split_document :: "(json \<Rightarrow> string) \<Rightarrow> json \<Rightarrow> (json list \<times> json) result" where
  "split_document other geojson =
     (case getitem geojson ''features'' of
        Inl e \<Rightarrow> Inl e
      | Inr fs \<Rightarrow>
          (case py_iter fs of
             Inl e \<Rightarrow> Inl e
           | Inr features \<Rightarrow>
               (case split_features other features [] of
                  Inl e \<Rightarrow> Inl e
                | Inr new_features \<Rightarrow>
                    (case getitem geojson ''crs'' of
                       Inl e \<Rightarrow> Inl e
                     | Inr crs \<Rightarrow>
                         Inr (new_features,
                              JObj [(''type'', JStr ''FeatureCollection''),
                                    (''crs'', crs),
                                    (''features'', JArr new_features)])))))"

text \<open>
  The function \<^verbatim>\<open>split_multipolygon\<close>: read, split, write, report. The sample lines at
  the end index into the first new feature and can raise after the file is written.
\<close>

definition split_multipolygon :: "(json \<Rightarrow> string) \<Rightarrow> world \<Rightarrow> unit result \<times> world" where
  "split_multipolygon other w =
     (case load_json w ''opportunity_zones_wgs84.geojson'' of
        Inl e \<Rightarrow> (Inl e, w)
      | Inr geojson \<Rightarrow>
          (case split_document other geojson of
             Inl e \<Rightarrow> (Inl e, w)
           | Inr (new_features, new_geojson) \<Rightarrow>
               (let w1 = dump_json w ''opportunity_zones_split.geojson'' new_geojson;
                    w2 = say w1 (SayNat ''Split MultiPolygon into individual features'' (length new_features));
                    w3 = say w2 (Say ''Output: opportunity_zones_split.geojson'');
                    original_count =
                      (case getitem geojson ''features'' of
                         Inr fs \<Rightarrow> (case py_iter fs of Inr xs \<Rightarrow> length xs | Inl _ \<Rightarrow> 0)
                       | Inl _ \<Rightarrow> 0);
                    w4 = say w3 (SayNat ''Original features'' original_count);
                    w5 = say w4 (SayNat ''New features'' (length new_features))
                in case new_features of
                     [] \<Rightarrow> (Inr (), w5)
                   | first # _ \<Rightarrow>
                       (let w6 = say w5 (SayVal ''Sample feature ID''
                                   (case first of JObj f \<Rightarrow> dict_get f ''id'' JNull | _ \<Rightarrow> JNull))
                        in case getitem first ''geometry'' of
                             Inl e \<Rightarrow> (Inl e, w6)
                           | Inr g \<Rightarrow>
                               (case getitem g ''coordinates'' of
                                  Inl e \<Rightarrow> (Inl e, w6)
                                | Inr c \<Rightarrow>
                                    (case getindex c 0 of
                                       Inl e \<Rightarrow> (Inl e, w6)
                                     | Inr c0 \<Rightarrow>
                                         (case getindex c0 0 of
                                            Inl e \<Rightarrow> (Inl e, w6)
                                          | Inr c00 \<Rightarrow>
                                              (Inr (), say w6 (SayVal ''Sample coordinates'' c00)))))))))"

text \<open>
  The script, \<^verbatim>\<open>if __name__ == "__main__"\<close>: the handler prints the exception and the
  traceback and falls off the end of the script, so the interpreter exits with status 0.
\<close>

definition split_main :: "(json \<Rightarrow> string) \<Rightarrow> world \<Rightarrow> nat \<times> world" where
  "split_main other w =
     (case split_multipolygon other w of
        (Inl e, w') \<Rightarrow> (0, say (say w' (SayError e)) Traceback)
      | (Inr u, w') \<Rightarrow> (0, w'))"

subsection \<open>The notions of the specification\<close>

definition geometry_type :: "json \<Rightarrow> json option" where
  "geometry_type feature =
     (case getitem feature ''geometry'' of
        Inr g \<Rightarrow> (case getitem g ''type'' of Inr t \<Rightarrow> Some t | Inl _ \<Rightarrow> None)
      | Inl _ \<Rightarrow> None)"

definition is_multipolygon :: "json \<Rightarrow> bool" where
  "is_multipolygon feature = (geometry_type feature = Some (JStr ''MultiPolygon''))"

text \<open>The coordinates member of a feature's geometry.\<close>

definition coordinates_of :: "json \<Rightarrow> json option" where
  "coordinates_of feature =
     (case getitem feature ''geometry'' of
        Inr g \<Rightarrow> (case getitem g ''coordinates'' of Inr c \<Rightarrow> Some c | Inl _ \<Rightarrow> None)
      | Inl _ \<Rightarrow> None)"

text \<open>The constituent polygons of a MultiPolygon: its coordinates, when they are a list.\<close>

definition polygons_of :: "json \<Rightarrow> json list option" where
  "polygons_of feature = (case coordinates_of feature of Some (JArr ps) \<Rightarrow> Some ps | _ \<Rightarrow> None)"

text \<open>
  The properties mapping of a feature; a feature with no such member has the empty
  mapping, one whose member is not a mapping (\<^verbatim>\<open>null\<close>, say) has none.
\<close>

definition properties_of :: "json \<Rightarrow> (string \<times> json) list option" where
  "properties_of feature =
     (case feature of
        JObj f \<Rightarrow> (case dict_get f ''properties'' (JObj []) of JObj props \<Rightarrow> Some props | _ \<Rightarrow> None)
      | _ \<Rightarrow> None)"

text \<open>
  The text of a feature's identifier in the derived identifiers: the identifier as
  \<^verbatim>\<open>str\<close> prints it, and \<^verbatim>\<open>unknown\<close> for a feature that has none.
\<close>

definition original_id :: "(json \<Rightarrow> string) \<Rightarrow> json \<Rightarrow> string" where
  "original_id other feature =
     (case feature of
        JObj f \<Rightarrow> (case map_of f ''id'' of Some v \<Rightarrow> py_str other v | None \<Rightarrow> ''unknown'')
      | _ \<Rightarrow> ''unknown'')"

text \<open>
  A feature of the data model: it has a geometry with a type, and a MultiPolygon has a
  list of polygons and a properties mapping.
\<close>

definition splittable :: "json \<Rightarrow> bool" where
  "splittable feature =
     (geometry_type feature \<noteq> None \<and>
      (\<not> is_multipolygon feature \<or> (polygons_of feature \<noteq> None \<and> properties_of feature \<noteq> None)))"

text \<open>
  What the specification asks of the features that replace \<open>feature\<close>: a feature that is not
  a MultiPolygon is kept as it is; one with \<open>K\<close> polygons becomes \<open>K\<close> Polygon features,
  the \<open>i\<close>-th with the \<open>i\<close>-th polygon's rings, the identifier \<^verbatim>\<open>{id}_{i}\<close> and the
  original properties with \<^verbatim>\<open>polygon_index\<close> \<open>i\<close> and \<^verbatim>\<open>total_polygons\<close> \<open>K\<close>.
\<close>

definition is_split_of :: "(json \<Rightarrow> string) \<Rightarrow> json \<Rightarrow> json list \<Rightarrow> bool" where
  "is_split_of other feature parts =
     (if is_multipolygon feature then
        (case (polygons_of feature, properties_of feature) of
           (Some polygons, Some props) \<Rightarrow>
             length parts = length polygons \<and>
             (\<forall>i < length polygons.
                getitem (parts ! i) ''type'' = Inr (JStr ''Feature'') \<and>
                geometry_type (parts ! i) = Some (JStr ''Polygon'') \<and>
                coordinates_of (parts ! i) = Some (polygons ! i) \<and>
                getitem (parts ! i) ''id'' = Inr (JStr (original_id other feature @ ''_'' @ str_nat i)) \<and>
                map_option map_of (properties_of (parts ! i)) =
                  Some ((map_of props)(''polygon_index'' \<mapsto> JInt (int i),
                                       ''total_polygons'' \<mapsto> JInt (int (length polygons)))))
         | _ \<Rightarrow> False)
      else parts = [feature])"

text \<open>The number of features a feature contributes: its polygons, or itself.\<close>

definition part_count :: "json \<Rightarrow> nat" where
  "part_count feature =
     (if is_multipolygon feature
      then (case polygons_of feature of Some ps \<Rightarrow> length ps | None \<Rightarrow> 0)
      else 1)"

section \<open>convert\_opportunity\_zones.py\<close>

text \<open>
  \<^verbatim>\<open>transformer.transform\<close> belongs to the projection library: it is the parameter
  \<open>transform\<close>, a function of the two values it is given that returns a pair or raises.
  One coordinate: \<^verbatim>\<open>lon, lat = transformer.transform(coord[0], coord[1])\<close>, and the value
  stored is the new list \<^verbatim>\<open>[lon, lat]\<close>.
\<close>

definition convert_coord :: "(json \<Rightarrow> json \<Rightarrow> (json \<times> json) result) \<Rightarrow> json \<Rightarrow> json result" where
  "convert_coord transform coord =
     (case getindex coord 0 of
        Inl e \<Rightarrow> Inl e
      | Inr x \<Rightarrow>
          (case getindex coord 1 of
             Inl e \<Rightarrow> Inl e
           | Inr y \<Rightarrow>
               (case transform x y of
                  Inl e \<Rightarrow> Inl e
                | Inr (lon, lat) \<Rightarrow> Inr (JArr [lon, lat]))))"

text \<open>
  \<^verbatim>\<open>for i, coord in enumerate(ring): ... ring[i] = [lon, lat]\<close> on a list: the loop reads
  position \<open>i\<close> of the list as it is now and overwrites it.
\<close>

function convert_ring_loop ::
  "(json \<Rightarrow> json \<Rightarrow> (json \<times> json) result) \<Rightarrow> json list \<Rightarrow> nat \<Rightarrow> json list result" where
  "convert_ring_loop transform ring i =
     (if i < length ring then
        (case convert_coord transform (ring ! i) of
           Inl e \<Rightarrow> Inl e
         | Inr c \<Rightarrow> convert_ring_loop transform (ring[i := c]) (Suc i))
      else Inr ring)"
  by pat_completeness auto
termination
  by (relation "measure (\<lambda>(transform, ring, i). length ring - i)") auto

declare convert_ring_loop.simps [simp del]

text \<open>
  A ring that is not a list: a string or a dict is iterated (characters, keys), and when
  the first item converts, the assignment \<^verbatim>\<open>ring[i] = ...\<close> raises on a string and
  grows a dict, which makes the next step of the iteration raise; an empty one is left
  alone. The lists of a loaded document are not shared, so updating them in place is
  rebuilding the value.
\<close>

definition convert_ring :: "(json \<Rightarrow> json \<Rightarrow> (json \<times> json) result) \<Rightarrow> json \<Rightarrow> json result" where
  "convert_ring transform ring =
     (case ring of
        JArr coords \<Rightarrow>
          (case convert_ring_loop transform coords 0 of
             Inl e \<Rightarrow> Inl e
           | Inr coords' \<Rightarrow> Inr (JArr coords'))
      | _ \<Rightarrow>
          (case py_iter ring of
             Inl e \<Rightarrow> Inl e
           | Inr [] \<Rightarrow> Inr ring
           | Inr (coord # _) \<Rightarrow>
               (case convert_coord transform coord of
                  Inl e \<Rightarrow> Inl e
                | Inr c \<Rightarrow> Inl (case ring of JObj _ \<Rightarrow> RuntimeError | _ \<Rightarrow> TypeError))))"

text \<open>\<^verbatim>\<open>for ring in polygon\<close>: only the rings of a list can have changed.\<close>

definition convert_polygon :: "(json \<Rightarrow> json \<Rightarrow> (json \<times> json) result) \<Rightarrow> json \<Rightarrow> json result" where
  "convert_polygon transform polygon =
     (case py_iter polygon of
        Inl e \<Rightarrow> Inl e
      | Inr rings \<Rightarrow>
          (case map_result (convert_ring transform) rings of
             Inl e \<Rightarrow> Inl e
           | Inr rings' \<Rightarrow> Inr (case polygon of JArr _ \<Rightarrow> JArr rings' | _ \<Rightarrow> polygon)))"

text \<open>The feature whose coordinates list was updated in place.\<close>

definition set_coordinates :: "json \<Rightarrow> json \<Rightarrow> json" where
  "set_coordinates feature c =
     (case feature of
        JObj f \<Rightarrow>
          (case map_of f ''geometry'' of
             Some (JObj g) \<Rightarrow> JObj (dict_set f ''geometry'' (JObj (dict_set g ''coordinates'' c)))
           | _ \<Rightarrow> feature)
      | _ \<Rightarrow> feature)"

text \<open>The body of \<^verbatim>\<open>for feature in geojson['features']\<close>.\<close>

definition convert_feature :: "(json \<Rightarrow> json \<Rightarrow> (json \<times> json) result) \<Rightarrow> json \<Rightarrow> json result" where
  "convert_feature transform feature =
     (case getitem feature ''geometry'' of
        Inl e \<Rightarrow> Inl e
      | Inr geometry \<Rightarrow>
          (case getitem geometry ''type'' of
             Inl e \<Rightarrow> Inl e
           | Inr ty \<Rightarrow>
               if ty = JStr ''MultiPolygon'' then
                 (case getitem geometry ''coordinates'' of
                    Inl e \<Rightarrow> Inl e
                  | Inr coordinates \<Rightarrow>
                      (case py_iter coordinates of
                         Inl e \<Rightarrow> Inl e
                       | Inr polygons \<Rightarrow>
                           (case map_result (convert_polygon transform) polygons of
                              Inl e \<Rightarrow> Inl e
                            | Inr polygons' \<Rightarrow>
                                Inr (case coordinates of
                                       JArr _ \<Rightarrow> set_coordinates feature (JArr polygons')
                                     | _ \<Rightarrow> feature))))
               else Inr feature))"

definition wgs84_crs :: json where
  "wgs84_crs = JObj [(''type'', JStr ''name''), (''properties'', JObj [(''name'', JStr ''EPSG:4326'')])]"

text \<open>
  From the loaded document to the document that is written: the loop, then
  \<^verbatim>\<open>geojson['crs'] = {...}\<close>.
\<close>

definition convert_document :: "(json \<Rightarrow> json \<Rightarrow> (json \<times> json) result) \<Rightarrow> json \<Rightarrow> json result" where
  "convert_document transform geojson =
     (case getitem geojson ''features'' of
        Inl e \<Rightarrow> Inl e
      | Inr fs \<Rightarrow>
          (case py_iter fs of
             Inl e \<Rightarrow> Inl e
           | Inr features \<Rightarrow>
               (case map_result (convert_feature transform) features of
                  Inl e \<Rightarrow> Inl e
                | Inr features' \<Rightarrow>
                    (case geojson of
                       JObj d \<Rightarrow>
                         Inr (JObj (dict_set
                                (case fs of JArr _ \<Rightarrow> dict_set d ''features'' (JArr features') | _ \<Rightarrow> d)
                                ''crs'' wgs84_crs))
                     | _ \<Rightarrow> Inl TypeError))))"

text \<open>
  The function \<^verbatim>\<open>convert_coordinates\<close>: read, convert, write, report. The transformer is
  taken as built. The sample line indexes \<^verbatim>\<open>['features'][0]['geometry']['coordinates'][0][0][0]\<close>
  and can raise after the file is written.
\<close>

definition sample_coords :: "json \<Rightarrow> json result" where
  "sample_coords geojson =
     (case getitem geojson ''features'' of Inl e \<Rightarrow> Inl e | Inr fs \<Rightarrow>
     (case getindex fs 0 of Inl e \<Rightarrow> Inl e | Inr f \<Rightarrow>
     (case getitem f ''geometry'' of Inl e \<Rightarrow> Inl e | Inr g \<Rightarrow>
     (case getitem g ''coordinates'' of Inl e \<Rightarrow> Inl e | Inr c \<Rightarrow>
     (case getindex c 0 of Inl e \<Rightarrow> Inl e | Inr c0 \<Rightarrow>
     (case getindex c0 0 of Inl e \<Rightarrow> Inl e | Inr c00 \<Rightarrow> getindex c00 0))))))"

definition convert_coordinates ::
  "(json \<Rightarrow> json \<Rightarrow> (json \<times> json) result) \<Rightarrow> world \<Rightarrow> unit result \<times> world" where
  "convert_coordinates transform w =
     (case load_json w ''Opportunity_Zones_-4513523067566272484.geojson'' of
        Inl e \<Rightarrow> (Inl e, w)
      | Inr geojson \<Rightarrow>
          (case convert_document transform geojson of
             Inl e \<Rightarrow> (Inl e, w)
           | Inr converted \<Rightarrow>
               (let w1 = dump_json w ''opportunity_zones_wgs84.geojson'' converted;
                    w2 = say w1 (Say ''Converted opportunity zones to WGS84 coordinates'');
                    w3 = say w2 (Say ''Output: opportunity_zones_wgs84.geojson'')
                in case getitem converted ''features'' of
                     Inl e \<Rightarrow> (Inl e, w3)
                   | Inr fs \<Rightarrow>
                       if truthy fs then
                         (case sample_coords converted of
                            Inl e \<Rightarrow> (Inl e, w3)
                          | Inr c \<Rightarrow> (Inr (), say w3 (SayVal ''Sample coordinates'' c)))
                       else (Inr (), w3))))"

text \<open>
  The script: the handler prints the exception and a hint, then \<^verbatim>\<open>sys.exit(1)\<close>; a run
  that raises nothing ends with status 0.
\<close>

definition convert_main ::
  "(json \<Rightarrow> json \<Rightarrow> (json \<times> json) result) \<Rightarrow> world \<Rightarrow> nat \<times> world" where
  "convert_main transform w =
     (case convert_coordinates transform w of
        (Inl e, w') \<Rightarrow>
          (1, say (say w' (SayError e)) (Say ''Make sure pyproj is installed: pip install pyproj''))
      | (Inr u, w') \<Rightarrow> (0, w'))"

text \<open>
  The elements of a list (none for any other value), the numbers of coordinate pairs of
  the rings of the polygons of a feature, its rings in order, and a closed ring: a
  non-empty list whose first element equals its last.
\<close>

definition items :: "json \<Rightarrow> json list" where
  "items v = (case v of JArr xs \<Rightarrow> xs | _ \<Rightarrow> [])"

definition feature_shape :: "json \<Rightarrow> nat list list" where
  "feature_shape feature =
     (case coordinates_of feature of
        Some c \<Rightarrow> map (\<lambda>polygon. map (\<lambda>ring. length (items ring)) (items polygon)) (items c)
      | None \<Rightarrow> [])"

definition rings_of :: "json \<Rightarrow> json list" where
  "rings_of feature =
     (case coordinates_of feature of Some c \<Rightarrow> concat (map items (items c)) | None \<Rightarrow> [])"

definition ring_closed :: "json \<Rightarrow> bool" where
  "ring_closed ring = (case ring of JArr coords \<Rightarrow> coords \<noteq> [] \<and> hd coords = last coords | _ \<Rightarrow> False)"

section \<open>convert\_qozs\_to\_geojson.py\<close>

text \<open>
  The zones of \<^verbatim>\<open>load_qozs_csv\<close> are dicts with five fixed keys: a record. The rows are
  what \<^verbatim>\<open>csv.reader\<close> yields for the file, lists of strings.
\<close>

record qoz =
  state :: string
  county :: string
  tract_id :: string
  zone_type :: string
  year_range :: string

definition valid_states :: "string list" where
  "valid_states =
     [''Alabama'', ''Alaska'', ''Arizona'', ''Arkansas'', ''California'', ''Colorado'', ''Connecticut'',
      ''Delaware'', ''Florida'', ''Georgia'', ''Hawaii'', ''Idaho'', ''Illinois'', ''Indiana'', ''Iowa'',
      ''Kansas'', ''Kentucky'', ''Louisiana'', ''Maine'', ''Maryland'', ''Massachusetts'', ''Michigan'',
      ''Minnesota'', ''Mississippi'', ''Missouri'', ''Montana'', ''Nebraska'', ''Nevada'', ''New Hampshire'',
      ''New Jersey'', ''New Mexico'', ''New York'', ''North Carolina'', ''North Dakota'', ''Ohio'',
      ''Oklahoma'', ''Oregon'', ''Pennsylvania'', ''Rhode Island'', ''South Carolina'', ''South Dakota'',
      ''Tennessee'', ''Texas'', ''Utah'', ''Vermont'', ''Virginia'', ''Washington'', ''West Virginia'',
      ''Wisconsin'', ''Wyoming'']"

text \<open>The loop over the rows, appending to \<^verbatim>\<open>qozs\<close>; \<^verbatim>\<open>row[0]\<close> is read only when the row has five fields.\<close>

fun load_rows :: "string list list \<Rightarrow> qoz list \<Rightarrow> qoz list" where
  "load_rows [] qozs = qozs"
| "load_rows (row # rest) qozs =
     (if 5 \<le> length row \<and> row ! 0 \<noteq> [] \<and> row ! 0 \<in> set valid_states
      then load_rows rest
             (qozs @ [\<lparr>state = row ! 0, county = row ! 1, tract_id = row ! 2,
                       zone_type = row ! 3, year_range = row ! 4\<rparr>])
      else load_rows rest qozs)"

definition load_qozs_csv :: "string list list \<Rightarrow> qoz list" where
  "load_qozs_csv rows = load_rows rows []"

text \<open>The rows the loader keeps, and the zone made of the first five fields of a row.\<close>

definition recognized :: "string list \<Rightarrow> bool" where
  "recognized row = (5 \<le> length row \<and> hd row \<noteq> [] \<and> hd row \<in> set valid_states)"

definition zone_of_row :: "string list \<Rightarrow> qoz" where
  "zone_of_row row =
     \<lparr>state = row ! 0, county = row ! 1, tract_id = row ! 2, zone_type = row ! 3, year_range = row ! 4\<rparr>"

text \<open>
  The boundary service is outside the scripts: \<open>fetch n state_code tract\<close> is what the
  \<open>n\<close>-th call of \<^verbatim>\<open>requests.get\<close> gives for the query, an exception or a response with
  its status code and its body (\<open>None\<close> for a body that \<^verbatim>\<open>response.json()\<close> rejects).
\<close>

datatype response = Raised py_error | Response nat "json option"

definition state_fips_map :: "(string \<times> string) list" where
  "state_fips_map =
     [(''Alabama'', ''01''), (''Alaska'', ''02''), (''Arizona'', ''04''), (''Arkansas'', ''05''),
      (''California'', ''06''), (''Colorado'', ''08''), (''Connecticut'', ''09''), (''Delaware'', ''10''),
      (''Florida'', ''12''), (''Georgia'', ''13''), (''Hawaii'', ''15''), (''Idaho'', ''16''),
      (''Illinois'', ''17''), (''Indiana'', ''18''), (''Iowa'', ''19''), (''Kansas'', ''20''),
      (''Kentucky'', ''21''), (''Louisiana'', ''22''), (''Maine'', ''23''), (''Maryland'', ''24''),
      (''Massachusetts'', ''25''), (''Michigan'', ''26''), (''Minnesota'', ''27''), (''Mississippi'', ''28''),
      (''Missouri'', ''29''), (''Montana'', ''30''), (''Nebraska'', ''31''), (''Nevada'', ''32''),
      (''New Hampshire'', ''33''), (''New Jersey'', ''34''), (''New Mexico'', ''35''), (''New York'', ''36''),
      (''North Carolina'', ''37''), (''North Dakota'', ''38''), (''Ohio'', ''39''), (''Oklahoma'', ''40''),
      (''Oregon'', ''41''), (''Pennsylvania'', ''42''), (''Rhode Island'', ''44''), (''South Carolina'', ''45''),
      (''South Dakota'', ''46''), (''Tennessee'', ''47''), (''Texas'', ''48''), (''Utah'', ''49''),
      (''Vermont'', ''50''), (''Virginia'', ''51''), (''Washington'', ''53''), (''West Virginia'', ''54''),
      (''Wisconsin'', ''55''), (''Wyoming'', ''56'')]"

text \<open>
  What the \<^verbatim>\<open>try\<close> block of \<^verbatim>\<open>get_census_tract_boundary\<close> returns or raises;
  \<open>Inr None\<close> is falling out of the two \<^verbatim>\<open>if\<close>s.
\<close>

definition boundary_of_response :: "response \<Rightarrow> json option result" where
  "boundary_of_response resp =
     (case resp of
        Raised e \<Rightarrow> Inl e
      | Response status body \<Rightarrow>
          if status = 200 then
            (case body of
               None \<Rightarrow> Inl JSONDecodeError
             | Some (JObj data) \<Rightarrow>
                 (let fs = dict_get data ''features'' JNull
                  in if truthy fs
                     then (case getindex fs 0 of Inl e \<Rightarrow> Inl e | Inr f \<Rightarrow> Inr (Some f))
                     else Inr None)
             | Some _ \<Rightarrow> Inl AttributeError)
          else Inr None)"

text \<open>\<^verbatim>\<open>state_fips_map.get(state_fips, '00')\<close>.\<close>

definition state_code :: "string \<Rightarrow> string" where
  "state_code state_fips = (case map_of state_fips_map state_fips of Some c \<Rightarrow> c | None \<Rightarrow> ''00'')"

text \<open>
  \<^verbatim>\<open>get_census_tract_boundary\<close>: every exception is caught and printed, and the result is
  then \<^verbatim>\<open>None\<close>.
\<close>

definition get_census_tract_boundary ::
  "(nat \<Rightarrow> string \<Rightarrow> string \<Rightarrow> response) \<Rightarrow> nat \<Rightarrow> world \<Rightarrow> string \<Rightarrow> string \<Rightarrow> json option \<times> world" where
  "get_census_tract_boundary fetch n w state_fips tract =
     (case boundary_of_response (fetch n (state_code state_fips) tract) of
        Inl e \<Rightarrow> (None, say w (SayLookupError state_fips tract e))
      | Inr b \<Rightarrow> (b, w))"

text \<open>\<^verbatim>\<open>if boundary:\<close> takes the first branch for a value that is not \<^verbatim>\<open>None\<close> and is true.\<close>

definition usable :: "json option \<Rightarrow> json option" where
  "usable boundary = (case boundary of Some b \<Rightarrow> if truthy b then Some b else None | None \<Rightarrow> None)"

text \<open>The properties of a feature of zone \<open>i\<close> (counted from 0), with its description.\<close>

definition zone_properties :: "nat \<Rightarrow> qoz \<Rightarrow> string \<Rightarrow> json" where
  "zone_properties i z description =
     JObj [(''OBJECTID'', JInt (int i + 1)),
           (''STATE'', JStr (state z)),
           (''COUNTY'', JStr (county z)),
           (''TRACT_ID'', JStr (tract_id z)),
           (''ZONE_TYPE'', JStr (zone_type z)),
           (''YEAR_RANGE'', JStr (year_range z)),
           (''DESCRIPTION'', JStr description)]"

definition boundary_feature :: "nat \<Rightarrow> qoz \<Rightarrow> json \<Rightarrow> json" where
  "boundary_feature i z geometry =
     JObj [(''type'', JStr ''Feature''),
           (''id'', JInt (int i + 1)),
           (''geometry'', geometry),
           (''properties'',
              zone_properties i z (''Opportunity Zone in '' @ county z @ '', '' @ state z))]"

definition point_feature :: "nat \<Rightarrow> qoz \<Rightarrow> json" where
  "point_feature i z =
     JObj [(''type'', JStr ''Feature''),
           (''id'', JInt (int i + 1)),
           (''geometry'', JObj [(''type'', JStr ''Point''),
                                (''coordinates'', JArr [JFloat (- 122.3), JFloat 47.6])]),
           (''properties'',
              zone_properties i z (''Opportunity Zone in '' @ county z @ '', '' @ state z @ '' (point only)''))]"

text \<open>
  The loop \<^verbatim>\<open>for i, qoz in enumerate(test_zones)\<close> with its state: the features, the
  counter \<^verbatim>\<open>success_count\<close> and the console. \<open>n_zones\<close> is \<^verbatim>\<open>len(test_zones)\<close>. The pause
  between two calls changes nothing here.
\<close>

fun process_zones ::
  "(nat \<Rightarrow> string \<Rightarrow> string \<Rightarrow> response) \<Rightarrow> nat \<Rightarrow> qoz list \<Rightarrow> nat \<Rightarrow> json list \<Rightarrow> nat \<Rightarrow> world
     \<Rightarrow> (json list \<times> nat) result \<times> world" where
  "process_zones fetch n_zones [] i features success_count w = (Inr (features, success_count), w)"
| "process_zones fetch n_zones (z # rest) i features success_count w =
     (let w1 = say w (SayVal ''Processing''
                        (JArr [JInt (int i + 1), JInt (int n_zones), JStr (state z), JStr (tract_id z)]));
          (boundary, w2) = get_census_tract_boundary fetch i w1 (state z) (tract_id z)
      in case usable boundary of
           Some b \<Rightarrow>
             (case getitem b ''geometry'' of
                Inl e \<Rightarrow> (Inl e, w2)
              | Inr geometry \<Rightarrow>
                  process_zones fetch n_zones rest (Suc i) (features @ [boundary_feature i z geometry])
                    (Suc success_count) w2)
         | None \<Rightarrow>
             process_zones fetch n_zones rest (Suc i) (features @ [point_feature i z]) success_count w2)"

text \<open>\<^verbatim>\<open>create_qozs_geojson\<close>, on the rows of the zone table.\<close>

definition create_qozs_geojson ::
  "(nat \<Rightarrow> string \<Rightarrow> string \<Rightarrow> response) \<Rightarrow> string list list \<Rightarrow> world \<Rightarrow> json result \<times> world" where
  "create_qozs_geojson fetch rows w =
     (let w1 = say w (Say ''Loading QOZs CSV data...'');
          qozs = load_qozs_csv rows;
          w2 = say w1 (SayNat ''Found opportunity zones'' (length qozs));
          test_zones = take 100 qozs;
          w3 = say w2 (SayNat ''Processing first zones'' (length test_zones))
      in case process_zones fetch (length test_zones) test_zones 0 [] 0 w3 of
           (Inl e, w4) \<Rightarrow> (Inl e, w4)
         | (Inr (features, success_count), w4) \<Rightarrow>
             (let geojson = JObj [(''type'', JStr ''FeatureCollection''), (''features'', JArr features)];
                  w5 = dump_json w4 ''opportunity_zones_complete.geojson'' geojson;
                  w6 = say w5 (SayNat ''Created GeoJSON with opportunity zones'' (length features));
                  w7 = say w6 (Say ''Saved to: opportunity_zones_complete.geojson'');
                  w8 = say w7 (SayNat ''Successfully got boundaries for zones'' success_count);
                  w9 = say w8 (SayNat ''Total zones in CSV'' (length qozs))
              in (Inr geojson, w9)))"

text \<open>
  The boundary the lookup of zone \<open>z\<close> at call \<open>i\<close> gives the loop, if any, and the number
  of zones of a list, processed from call \<open>i\<close> on, for which it gives one.
\<close>

definition found_boundary :: "(nat \<Rightarrow> string \<Rightarrow> string \<Rightarrow> response) \<Rightarrow> nat \<Rightarrow> qoz \<Rightarrow> json option" where
  "found_boundary fetch i z =
     usable (case boundary_of_response (fetch i (state_code (state z)) (tract_id z)) of
               Inl e \<Rightarrow> None
             | Inr b \<Rightarrow> b)"

fun found_count :: "(nat \<Rightarrow> string \<Rightarrow> string \<Rightarrow> response) \<Rightarrow> nat \<Rightarrow> qoz list \<Rightarrow> nat" where
  "found_count fetch i [] = 0"
| "found_count fetch i (z # zs) =
     (if found_boundary fetch i z = None then 0 else 1) + found_count fetch (Suc i) zs"

section \<open>generate\_economic\_data.py\<close>

text \<open>\<^verbatim>\<open>str(val) if val not in ('', None) else 'NULL'\<close>.\<close>

definition null_if_missing :: "(json \<Rightarrow> string) \<Rightarrow> json \<Rightarrow> string" where
  "null_if_missing other val = (if val = JStr [] \<or> val = JNull then ''NULL'' else py_str other val)"

definition fieldnames :: "string list" where
  "fieldnames =
     [''region'', ''gdp_growth'', ''employment_rate'', ''property_appreciation'',
      ''builder_accessibility'', ''international_accessibility'', ''last_updated'']"

text \<open>
  The two indicator tables are dicts from a country to the text of a value, downloaded
  before the table is written; they, the countries and the date are parameters.
  \<^verbatim>\<open>d.get(country, '')\<close> on such a dict:
\<close>

definition get_text :: "(string \<times> string) list \<Rightarrow> string \<Rightarrow> string" where
  "get_text d country = (case map_of d country of Some v \<Rightarrow> v | None \<Rightarrow> [])"

text \<open>The dict handed to \<^verbatim>\<open>writer.writerow\<close> for one country.\<close>

definition country_row ::
  "(json \<Rightarrow> string) \<Rightarrow> (string \<times> string) list \<Rightarrow> (string \<times> string) list \<Rightarrow> string \<Rightarrow> string
     \<Rightarrow> (string \<times> string) list" where
  "country_row other gdp_growth employment_rate today country =
     [(''region'', country),
      (''gdp_growth'', null_if_missing other (JStr (get_text gdp_growth country))),
      (''employment_rate'', null_if_missing other (JStr (get_text employment_rate country))),
      (''property_appreciation'', []),
      (''builder_accessibility'', []),
      (''international_accessibility'', []),
      (''last_updated'', today)]"

text \<open>
  \<^verbatim>\<open>csv.DictWriter.writerow\<close>: a key that is no field name raises \<^verbatim>\<open>ValueError\<close>; the row
  written has the value of every field name in order, empty where the dict has none.
\<close>

definition writerow :: "string list \<Rightarrow> (string \<times> string) list \<Rightarrow> string list result" where
  "writerow names rowdict =
     (if list_all (\<lambda>kv. fst kv \<in> set names) rowdict
      then Inr (map (\<lambda>k. case map_of rowdict k of Some v \<Rightarrow> v | None \<Rightarrow> []) names)
      else Inl ValueError)"

text \<open>The rows of \<^verbatim>\<open>economic_data_global.csv\<close>: the header, then one row per country.\<close>

definition economic_table ::
  "(json \<Rightarrow> string) \<Rightarrow> (string \<times> string) list \<Rightarrow> (string \<times> string) list \<Rightarrow> string \<Rightarrow> string list
     \<Rightarrow> string list list result" where
  "economic_table other gdp_growth employment_rate today countries =
     (case map_result (\<lambda>country. writerow fieldnames
                          (country_row other gdp_growth employment_rate today country)) countries of
        Inl e \<Rightarrow> Inl e
      | Inr rows \<Rightarrow> Inr (fieldnames # rows))"

text \<open>The text of an indicator of a country: its value, or the null marker when it has none.\<close>

definition indicator_text :: "(string \<times> string) list \<Rightarrow> string \<Rightarrow> string" where
  "indicator_text d country =
     (case map_of d country of None \<Rightarrow> ''NULL'' | Some v \<Rightarrow> if v = [] then ''NULL'' else v)"

section \<open>qozs\_to\_geojson\_bulk.py\<close>

text \<open>
  The script is five calls into the data-frame libraries. A table is the list of its
  rows; a row of the boundary table is its \<^verbatim>\<open>GEOID\<close> and the rest, a row of the zone table
  is the text of its \<^verbatim>\<open>TRACTCE\<close> (after \<^verbatim>\<open>astype(str)\<close>) and the rest.
\<close>

text \<open>
  Modelled from the spec: \<^verbatim>\<open>Series.str.zfill\<close> of the data-frame library, which is not part
  of the repository; the specification says "zero-padded": zeros are put in front of a
  text shorter than the width.
\<close>

definition zfill :: "nat \<Rightarrow> string \<Rightarrow> string" where
  "zfill width s = replicate (width - length s) CHR ''0'' @ s"

text \<open>
  Modelled from the spec: \<^verbatim>\<open>DataFrame.merge(..., how='inner')\<close> of the data-frame library,
  which is not part of the repository; the specification says "inner-join semantics": one
  row for every pair of a left row and a right row with equal keys.
\<close>

definition merge_inner :: "(string \<times> 'g) list \<Rightarrow> (string \<times> 'z) list \<Rightarrow> ((string \<times> 'g) \<times> (string \<times> 'z)) list" where
  "merge_inner left right =
     concat (map (\<lambda>l. map (\<lambda>r. (l, r)) (filter (\<lambda>r. fst r = fst l) right)) left)"

text \<open>The script: pad the tract codes of the zones to 11, then join the tracts with them.\<close>

definition pad_zones :: "(string \<times> 'z) list \<Rightarrow> (string \<times> 'z) list" where
  "pad_zones qozs = map (\<lambda>q. (zfill 11 (fst q), snd q)) qozs"

definition qozs_to_geojson_bulk ::
  "(string \<times> 'g) list \<Rightarrow> (string \<times> 'z) list \<Rightarrow> ((string \<times> 'g) \<times> (string \<times> 'z)) list" where
  "qozs_to_geojson_bulk tracts qozs = merge_inner tracts (pad_zones qozs)"

section \<open>Documents that convert\<close>

text \<open>
  A call that returns, and the rings, polygons and features of the data model of which
  every coordinate pair converts.
\<close>

definition returns :: "'a result \<Rightarrow> bool" where
  "returns r = (case r of Inl e \<Rightarrow> False | Inr v \<Rightarrow> True)"

definition ring_converts :: "(json \<Rightarrow> json \<Rightarrow> (json \<times> json) result) \<Rightarrow> json \<Rightarrow> bool" where
  "ring_converts transform ring =
     (case ring of
        JArr coords \<Rightarrow> list_all (\<lambda>c. returns (convert_coord transform c)) coords
      | _ \<Rightarrow> False)"

definition polygon_converts :: "(json \<Rightarrow> json \<Rightarrow> (json \<times> json) result) \<Rightarrow> json \<Rightarrow> bool" where
  "polygon_converts transform polygon =
     (case polygon of JArr rings \<Rightarrow> list_all (ring_converts transform) rings | _ \<Rightarrow> False)"

definition transformable :: "(json \<Rightarrow> json \<Rightarrow> (json \<times> json) result) \<Rightarrow> json \<Rightarrow> bool" where
  "transformable transform feature =
     (geometry_type feature \<noteq> None \<and>
      (\<not> is_multipolygon feature \<or>
       (case coordinates_of feature of
          Some (JArr polygons) \<Rightarrow> list_all (polygon_converts transform) polygons
        | _ \<Rightarrow> False)))"

section \<open>Example documents\<close>

definition example_ring5 :: json where
  "example_ring5 = JArr [JArr [JInt 0, JInt 0], JArr [JInt 4, JInt 0], JArr [JInt 4, JInt 4],
                         JArr [JInt 0, JInt 4], JArr [JInt 0, JInt 0]]"

definition example_ring4 :: json where
  "example_ring4 = JArr [JArr [JInt 10, JInt 10], JArr [JInt 12, JInt 10], JArr [JInt 11, JInt 12],
                         JArr [JInt 10, JInt 10]]"

definition example_multipolygon :: json where
  "example_multipolygon =
     JObj [(''type'', JStr ''Feature''), (''id'', JStr ''7''),
           (''geometry'', JObj [(''type'', JStr ''MultiPolygon''),
                                (''coordinates'', JArr [JArr [example_ring5], JArr [example_ring4]])]),
           (''properties'', JObj [(''NAME'', JStr ''Tract 7'')])]"

definition example_polygon :: json where
  "example_polygon =
     JObj [(''type'', JStr ''Feature''), (''id'', JInt 8),
           (''geometry'', JObj [(''type'', JStr ''Polygon''), (''coordinates'', JArr [example_ring5])]),
           (''properties'', JObj [(''NAME'', JStr ''Tract 8'')])]"

definition example_crs :: json where
  "example_crs = JObj [(''type'', JStr ''name''), (''properties'', JObj [(''name'', JStr ''EPSG:4326'')])]"

definition polygon_document :: json where
  "polygon_document =
     JObj [(''type'', JStr ''FeatureCollection''), (''crs'', example_crs),
           (''features'', JArr [example_polygon])]"

definition polygon_document_no_crs :: json where
  "polygon_document_no_crs =
     JObj [(''type'', JStr ''FeatureCollection''), (''features'', JArr [example_polygon])]"

definition world_of :: "json \<Rightarrow> world" where
  "world_of doc = \<lparr>files = [''opportunity_zones_wgs84.geojson'' \<mapsto> Parsed doc], console = []\<rparr>"

definition swap_transform :: "json \<Rightarrow> json \<Rightarrow> (json \<times> json) result" where
  "swap_transform x y = Inr (y, x)"

definition example_point :: json where
  "example_point =
     JObj [(''type'', JStr ''Feature''), (''id'', JInt 9),
           (''geometry'', JObj [(''type'', JStr ''Point''), (''coordinates'', JArr [JInt 1200000, JInt 800000])]),
           (''properties'', JObj [])]"

definition source_document :: json where
  "source_document =
     JObj [(''type'', JStr ''FeatureCollection''),
           (''crs'', JObj [(''type'', JStr ''name''), (''properties'', JObj [(''name'', JStr ''EPSG:2926'')])]),
           (''features'', JArr [example_multipolygon, example_point])]"

definition source_world :: "json \<Rightarrow> world" where
  "source_world doc =
     \<lparr>files = [''Opportunity_Zones_-4513523067566272484.geojson'' \<mapsto> Parsed doc], console = []\<rparr>"

definition converted_document :: json where
  "converted_document =
     JObj [(''type'', JStr ''FeatureCollection''),
                (''crs'', JObj [(''type'', JStr ''name''), (''properties'', JObj [(''name'', JStr ''EPSG:4326'')])]),
                (''features'',
                   JArr [JObj [(''type'', JStr ''Feature''), (''id'', JStr ''7''),
                           (''geometry'', JObj [(''type'', JStr ''MultiPolygon''),
                              (''coordinates'',
                                 JArr [JArr [JArr [JArr [JInt 0, JInt 0], JArr [JInt 0, JInt 4], JArr [JInt 4, JInt 4],
                                                   JArr [JInt 4, JInt 0], JArr [JInt 0, JInt 0]]],
                                       JArr [JArr [JArr [JInt 10, JInt 10], JArr [JInt 10, JInt 12],
                                                   JArr [JInt 12, JInt 11], JArr [JInt 10, JInt 10]]]])]),
                           (''properties'', JObj [(''NAME'', JStr ''Tract 7'')])],
                         example_point])]"

definition point_document :: json where
  "point_document =
     JObj [(''type'', JStr ''FeatureCollection''),
           (''crs'', JObj [(''type'', JStr ''name''), (''properties'', JObj [(''name'', JStr ''EPSG:2926'')])]),
           (''features'', JArr [example_point])]"

definition converted_point_document :: json where
  "converted_point_document =
     JObj [(''type'', JStr ''FeatureCollection''),
           (''crs'', JObj [(''type'', JStr ''name''), (''properties'', JObj [(''name'', JStr ''EPSG:4326'')])]),
           (''features'', JArr [example_point])]"

definition malformed_multipolygon :: "json list \<Rightarrow> json" where
  "malformed_multipolygon ring =
     JObj [(''type'', JStr ''Feature''), (''id'', JInt 1),
           (''geometry'', JObj [(''type'', JStr ''MultiPolygon''),
                                (''coordinates'', JArr [JArr [JArr ring]])]),
           (''properties'', JObj [])]"

definition malformed_first :: json where
  "malformed_first =
     JObj [(''type'', JStr ''FeatureCollection''),
           (''features'', JArr [malformed_multipolygon [JArr [JInt 1]]])]"

definition malformed_later :: json where
  "malformed_later =
     JObj [(''type'', JStr ''FeatureCollection''),
           (''features'', JArr [example_multipolygon,
                                malformed_multipolygon [JArr [JInt 0, JInt 0], JArr [JInt 1]]])]"

definition empty_world :: world where
  "empty_world = \<lparr>files = Map.empty, console = []\<rparr>"

definition example_rows :: "string list list" where
  "example_rows =
     [[''State'', ''County'', ''Census Tract Number'', ''Tract Type'', ''ACS Data Source''],
      [],
      [''Alabama'', ''Autauga'', ''01001020700'', ''Low-Income Community'', ''2011-2015''],
      [''Puerto Rico'', ''Adjuntas'', ''72001956300'', ''Low-Income Community'', ''2011-2015''],
      [''Alaska'', ''Anchorage''],
      ['''', ''x'', ''y'', ''z'', ''w''],
      [''Wyoming'', ''Albany'', ''56001963900'', ''Low-Income Community'', ''2011-2015'', ''extra'']]"

definition three_rows :: "string list list" where
  "three_rows =
     [[''State'', ''County'', ''Census Tract Number'', ''Tract Type'', ''ACS Data Source''],
      [''Alabama'', ''Autauga'', ''01001020700'', ''Low-Income Community'', ''2011-2015''],
      [''Alaska'', ''Anchorage'', ''02020000600'', ''Low-Income Community'', ''2011-2015''],
      [''Wyoming'', ''Albany'', ''56001963900'', ''Low-Income Community'', ''2011-2015'']]"

definition three_zones :: "qoz list" where
  "three_zones =
     [\<lparr>state = ''Alabama'', county = ''Autauga'', tract_id = ''01001020700'',
       zone_type = ''Low-Income Community'', year_range = ''2011-2015''\<rparr>,
      \<lparr>state = ''Alaska'', county = ''Anchorage'', tract_id = ''02020000600'',
       zone_type = ''Low-Income Community'', year_range = ''2011-2015''\<rparr>,
      \<lparr>state = ''Wyoming'', county = ''Albany'', tract_id = ''56001963900'',
       zone_type = ''Low-Income Community'', year_range = ''2011-2015''\<rparr>]"

definition tract_boundary :: json where
  "tract_boundary =
     JObj [(''type'', JStr ''Feature''),
           (''geometry'', JObj [(''type'', JStr ''Polygon''), (''coordinates'', JArr [example_ring5])])]"

text \<open>A service that times out on the first call, answers the second and has nothing for the third.\<close>

definition example_fetch :: "nat \<Rightarrow> string \<Rightarrow> string \<Rightarrow> response" where
  "example_fetch n code tract =
     (if n = 0 then Raised (LibraryError ''timed out'')
      else if n = 1 then Response 200 (Some (JObj [(''features'', JArr [tract_boundary])]))
      else Response 200 (Some (JObj [(''features'', JArr [])])))"

definition example_tracts :: "(string \<times> string) list" where
  "example_tracts = [(''01001020700'', ''polygon A''), (''56001963900'', ''polygon B'')]"

definition example_zones :: "(string \<times> string) list" where
  "example_zones =
     [(''1001020700'', ''Alabama''), (''72001956300'', ''Puerto Rico''), (''56001963900'', ''Wyoming'')]"

section \<open>Properties of the splitting script\<close>

lemma map_of_dict_set: "map_of (dict_set d k v) = (map_of d)(k \<mapsto> v)"
  by (induction d k v rule: dict_set.induct) auto

lemma new_feature_ok:
  assumes "dict_get f ''properties'' (JObj []) = JObj props"
  shows "new_feature other f i p K =
     Inr (JObj
            [(''type'', JStr ''Feature''),
             (''id'', JStr (py_str other (dict_get f ''id'' (JStr ''unknown'')) @ ''_'' @ str_nat i)),
             (''geometry'', JObj [(''type'', JStr ''Polygon''), (''coordinates'', p)]),
             (''properties'',
                JObj (dict_set (dict_set props ''polygon_index'' (JInt (int i)))
                        ''total_polygons'' (JInt (int K))))])"
  using assms by (simp del: dict_get.simps)

lemma split_parts_ok:
  assumes "dict_get f ''properties'' (JObj []) = JObj props"
  shows "\<exists>nfs. split_parts other f K ps i acc = Inr (acc @ nfs) \<and> length nfs = length ps \<and>
          (\<forall>j < length ps. new_feature other f (i + j) (ps ! j) K = Inr (nfs ! j))"
proof (induction ps arbitrary: i acc)
  case Nil
  then show ?case by simp
next
  case (Cons p ps)
  obtain nf where nf: "new_feature other f i p K = Inr nf"
    using new_feature_ok [OF assms] by blast
  obtain nfs where nfs: "split_parts other f K ps (Suc i) (acc @ [nf]) = Inr ((acc @ [nf]) @ nfs)"
      "length nfs = length ps"
      "\<forall>j < length ps. new_feature other f (Suc i + j) (ps ! j) K = Inr (nfs ! j)"
    using Cons.IH [of "Suc i" "acc @ [nf]"] by blast
  have "\<forall>j < length (p # ps). new_feature other f (i + j) ((p # ps) ! j) K = Inr ((nf # nfs) ! j)"
  proof (intro allI impI)
    fix j assume "j < length (p # ps)"
    then show "new_feature other f (i + j) ((p # ps) ! j) K = Inr ((nf # nfs) ! j)"
      using nf nfs(3) by (cases j) (simp_all del: new_feature.simps)
  qed
  then show ?case
    using nf nfs(1,2) by (intro exI [of _ "nf # nfs"]) (simp del: new_feature.simps)
qed

lemma original_id_eq:
  "py_str other (dict_get f ''id'' (JStr ''unknown'')) = original_id other (JObj f)"
  by (simp add: original_id_def split: option.splits)

lemma new_feature_is_part:
  assumes "new_feature other f i p K = Inr nf" and "dict_get f ''properties'' (JObj []) = JObj props"
  shows "getitem nf ''type'' = Inr (JStr ''Feature'') \<and>
         geometry_type nf = Some (JStr ''Polygon'') \<and>
         coordinates_of nf = Some p \<and>
         getitem nf ''id'' = Inr (JStr (original_id other (JObj f) @ ''_'' @ str_nat i)) \<and>
         map_option map_of (properties_of nf) =
           Some ((map_of props)(''polygon_index'' \<mapsto> JInt (int i), ''total_polygons'' \<mapsto> JInt (int K)))"
proof -
  have nf: "nf = JObj
            [(''type'', JStr ''Feature''),
             (''id'', JStr (original_id other (JObj f) @ ''_'' @ str_nat i)),
             (''geometry'', JObj [(''type'', JStr ''Polygon''), (''coordinates'', p)]),
             (''properties'',
                JObj (dict_set (dict_set props ''polygon_index'' (JInt (int i)))
                        ''total_polygons'' (JInt (int K))))]"
    using assms(1) new_feature_ok [OF assms(2), of other i p K] original_id_eq [of other f] by simp
  show ?thesis
    unfolding nf by (simp add: geometry_type_def coordinates_of_def properties_of_def map_of_dict_set)
qed

lemma split_feature_passthrough:
  assumes "geometry_type feature \<noteq> None" and "\<not> is_multipolygon feature"
  shows "split_feature other feature acc = Inr (acc @ [feature])"
  using assms
  by (auto simp: split_feature_def geometry_type_def is_multipolygon_def split: sum.splits)

lemma split_feature_multipolygon:
  assumes "is_multipolygon feature" and "polygons_of feature = Some polygons"
    and "properties_of feature = Some props"
  shows "\<exists>f. feature = JObj f \<and> dict_get f ''properties'' (JObj []) = JObj props \<and>
          split_feature other feature acc = split_parts other f (length polygons) polygons 0 acc"
proof -
  obtain f where f: "feature = JObj f"
    using assms(3) by (cases feature) (simp_all add: properties_of_def)
  have props: "dict_get f ''properties'' (JObj []) = JObj props"
    using assms(3) unfolding f properties_of_def by (simp split: json.splits del: dict_get.simps)
  obtain g where g: "getitem feature ''geometry'' = Inr g" "getitem g ''type'' = Inr (JStr ''MultiPolygon'')"
    using assms(1) by (auto simp: is_multipolygon_def geometry_type_def split: sum.splits)
  have c: "getitem g ''coordinates'' = Inr (JArr polygons)"
    using assms(2) g(1) by (auto simp: polygons_of_def coordinates_of_def split: sum.splits option.splits json.splits)
  have "split_feature other feature acc = split_parts other f (length polygons) polygons 0 acc"
    using g c unfolding split_feature_def f by simp
  then show ?thesis using f props by blast
qed

lemma split_feature_ok:
  assumes "splittable feature"
  shows "\<exists>parts. (\<forall>acc. split_feature other feature acc = Inr (acc @ parts)) \<and>
           is_split_of other feature parts \<and> length parts = part_count feature"
proof (cases "is_multipolygon feature")
  case False
  then have "\<forall>acc. split_feature other feature acc = Inr (acc @ [feature])"
    using assms split_feature_passthrough by (simp add: splittable_def)
  then show ?thesis
    using False by (intro exI [of _ "[feature]"]) (simp add: is_split_of_def part_count_def)
next
  case True
  then obtain polygons props where pp: "polygons_of feature = Some polygons" "properties_of feature = Some props"
    using assms by (auto simp: splittable_def)
  obtain f where f: "feature = JObj f" "dict_get f ''properties'' (JObj []) = JObj props"
    using split_feature_multipolygon [OF True pp] by blast
  have run: "split_feature other feature acc = split_parts other f (length polygons) polygons 0 acc" for acc
    using split_feature_multipolygon [OF True pp, of other acc] f(1) by blast
  obtain parts where parts: "split_parts other f (length polygons) polygons 0 [] = Inr ([] @ parts)"
      "length parts = length polygons"
      "\<forall>j < length polygons. new_feature other f (0 + j) (polygons ! j) (length polygons) = Inr (parts ! j)"
    using split_parts_ok [OF f(2), of other "length polygons" polygons 0 "[]"] by blast
  have same: "split_parts other f (length polygons) polygons 0 acc = Inr (acc @ parts)" for acc
  proof -
    obtain nfs where nfs: "split_parts other f (length polygons) polygons 0 acc = Inr (acc @ nfs)"
      "length nfs = length polygons"
      "\<forall>j < length polygons. new_feature other f (0 + j) (polygons ! j) (length polygons) = Inr (nfs ! j)"
      using split_parts_ok [OF f(2), of other "length polygons" polygons 0 acc] by blast
    have "nfs ! j = parts ! j" if "j < length polygons" for j
    proof -
      have "Inr (nfs ! j) = (Inr (parts ! j) :: json result)"
        using nfs(3) parts(3) that by metis
      then show ?thesis by simp
    qed
    then have "nfs = parts"
      using nfs(2) parts(2) by (simp add: list_eq_iff_nth_eq)
    then show ?thesis using nfs(1) by simp
  qed
  have each: "getitem (parts ! i) ''type'' = Inr (JStr ''Feature'') \<and>
         geometry_type (parts ! i) = Some (JStr ''Polygon'') \<and>
         coordinates_of (parts ! i) = Some (polygons ! i) \<and>
         getitem (parts ! i) ''id'' = Inr (JStr (original_id other feature @ ''_'' @ str_nat i)) \<and>
         map_option map_of (properties_of (parts ! i)) =
           Some ((map_of props)(''polygon_index'' \<mapsto> JInt (int i),
                   ''total_polygons'' \<mapsto> JInt (int (length polygons))))"
    if "i < length polygons" for i
  proof -
    have "new_feature other f i (polygons ! i) (length polygons) = Inr (parts ! i)"
      using parts(3) that by (simp del: new_feature.simps)
    then show ?thesis
      unfolding f(1) by (rule new_feature_is_part [OF _ f(2)])
  qed
  have "is_split_of other feature parts"
    unfolding is_split_of_def using True pp parts(2) each by simp
  moreover have "\<forall>acc. split_feature other feature acc = Inr (acc @ parts)"
    using same run by simp
  moreover have "length parts = part_count feature"
    using parts(2) True pp by (simp add: part_count_def)
  ultimately show ?thesis by blast
qed

lemma split_features_ok:
  assumes "\<forall>f \<in> set fs. splittable f"
  shows "\<exists>parts. length parts = length fs \<and>
           split_features other fs acc = Inr (acc @ concat parts) \<and>
           (\<forall>k < length fs. is_split_of other (fs ! k) (parts ! k)) \<and>
           length (concat parts) = sum_list (map part_count fs)"
  using assms
proof (induction fs arbitrary: acc)
  case Nil
  then show ?case by simp
next
  case (Cons f fs)
  obtain ps where ps: "\<forall>acc. split_feature other f acc = Inr (acc @ ps)"
      "is_split_of other f ps" "length ps = part_count f"
    using split_feature_ok [of f other] Cons.prems by auto
  obtain parts where parts: "length parts = length fs"
      "split_features other fs (acc @ ps) = Inr ((acc @ ps) @ concat parts)"
      "\<forall>k < length fs. is_split_of other (fs ! k) (parts ! k)"
      "length (concat parts) = sum_list (map part_count fs)"
    using Cons.IH [of "acc @ ps"] Cons.prems by auto
  have "\<forall>k < length (f # fs). is_split_of other ((f # fs) ! k) ((ps # parts) ! k)"
  proof (intro allI impI)
    fix k assume "k < length (f # fs)"
    then show "is_split_of other ((f # fs) ! k) ((ps # parts) ! k)"
      using ps(2) parts(3) by (cases k) simp_all
  qed
  moreover have "split_features other (f # fs) acc = Inr (acc @ concat (ps # parts))"
    using ps(1) parts(2) by simp
  moreover have "length (concat (ps # parts)) = sum_list (map part_count (f # fs))"
    using ps(3) parts(4) by simp
  moreover have "length (ps # parts) = length (f # fs)"
    using parts(1) by simp
  ultimately show ?case by blast
qed

lemma part_count_sum:
  "sum_list (map part_count fs) =
     sum_list (map part_count (filter is_multipolygon fs)) + length (filter (\<lambda>f. \<not> is_multipolygon f) fs)"
  by (induction fs) (simp_all add: part_count_def)

lemma split_multipolygon_writes:
  assumes "load_json w ''opportunity_zones_wgs84.geojson'' = Inr geojson"
    and "split_document other geojson = Inr (new_features, new_geojson)"
  shows "files (snd (split_multipolygon other w)) ''opportunity_zones_split.geojson'' = Some (Parsed new_geojson)"
  using assms
  by (simp add: split_multipolygon_def Let_def say_def dump_json_def split: list.splits sum.splits)

lemma split_multipolygon_fails:
  assumes "load_json w ''opportunity_zones_wgs84.geojson'' = Inr geojson"
    and "split_document other geojson = Inl e"
  shows "split_multipolygon other w = (Inl e, w)"
  using assms by (simp add: split_multipolygon_def)

lemma split_document_ok:
  assumes "getitem geojson ''features'' = Inr (JArr features)"
    and "getitem geojson ''crs'' = Inr crs"
    and "split_features other features [] = Inr new_features"
  shows "split_document other geojson =
           Inr (new_features,
                JObj [(''type'', JStr ''FeatureCollection''), (''crs'', crs),
                      (''features'', JArr new_features)])"
  using assms by (simp add: split_document_def)

text \<open>
  Claim C1. The loop of \<^verbatim>\<open>split_multipolygon\<close>, run on features of the data model,
  raises nothing and replaces every feature by its parts, in order: a feature whose
  geometry is a MultiPolygon of \<open>K\<close> polygons by exactly \<open>K\<close> features, the \<open>i\<close>-th of
  type Polygon with the \<open>i\<close>-th polygon's rings as coordinates, the identifier
  \<^verbatim>\<open>{id}_{i}\<close> (\<open>i\<close> from 0) and the original properties plus \<^verbatim>\<open>polygon_index\<close> \<open>i\<close> and
  \<^verbatim>\<open>total_polygons\<close> \<open>K\<close>; any other feature by itself. The number of new features is
  the sum of the part counts of the MultiPolygon features plus the number of the other
  features.
\<close>

theorem split_multipolygon_correct:
  assumes "\<forall>f \<in> set features. splittable f"
  shows "\<exists>parts. length parts = length features \<and>
           split_features other features [] = Inr (concat parts) \<and>
           (\<forall>k < length features. is_split_of other (features ! k) (parts ! k)) \<and>
           length (concat parts) =
             sum_list (map part_count (filter is_multipolygon features)) +
             length (filter (\<lambda>f. \<not> is_multipolygon f) features)"
proof -
  obtain parts where parts: "length parts = length features"
      "split_features other features [] = Inr ([] @ concat parts)"
      "\<forall>k < length features. is_split_of other (features ! k) (parts ! k)"
      "length (concat parts) = sum_list (map part_count features)"
    using split_features_ok [OF assms, of other "[]"] by blast
  show ?thesis
    using parts part_count_sum [of features] by (intro exI [of _ parts]) simp
qed

lemma example_multipolygon_splittable: "splittable example_multipolygon"
  by (simp add: splittable_def geometry_type_def is_multipolygon_def polygons_of_def coordinates_of_def
        properties_of_def example_multipolygon_def)

lemma example_polygon_splittable: "splittable example_polygon"
  by (simp add: splittable_def geometry_type_def is_multipolygon_def example_polygon_def)

text \<open>
  The specification's example: feature \<^verbatim>\<open>"7"\<close> with two parts of 5 and 4 coordinate
  pairs, followed by a Polygon feature.
\<close>

theorem split_multipolygon_correct_witness:
  "splittable example_multipolygon \<and> splittable example_polygon \<and>
   (\<exists>parts. length parts = length [example_multipolygon, example_polygon] \<and>
           split_features (\<lambda>v. []) [example_multipolygon, example_polygon] [] = Inr (concat parts) \<and>
           (\<forall>k < length [example_multipolygon, example_polygon].
               is_split_of (\<lambda>v. []) ([example_multipolygon, example_polygon] ! k) (parts ! k)) \<and>
           length (concat parts) =
             sum_list (map part_count (filter is_multipolygon [example_multipolygon, example_polygon])) +
             length (filter (\<lambda>f. \<not> is_multipolygon f) [example_multipolygon, example_polygon]))"
proof -
  have h: "\<forall>f \<in> set [example_multipolygon, example_polygon]. splittable f"
    using example_multipolygon_splittable example_polygon_splittable by simp
  show ?thesis
    using split_multipolygon_correct [OF h, of "\<lambda>v. []"]
      example_multipolygon_splittable example_polygon_splittable by blast
qed

lemma split_example:
  "split_features (\<lambda>v. []) [example_multipolygon, example_polygon] [] =
     Inr [JObj [(''type'', JStr ''Feature''), (''id'', JStr ''7_0''),
                (''geometry'', JObj [(''type'', JStr ''Polygon''), (''coordinates'', JArr [example_ring5])]),
                (''properties'', JObj [(''NAME'', JStr ''Tract 7''), (''polygon_index'', JInt 0),
                                       (''total_polygons'', JInt 2)])],
          JObj [(''type'', JStr ''Feature''), (''id'', JStr ''7_1''),
                (''geometry'', JObj [(''type'', JStr ''Polygon''), (''coordinates'', JArr [example_ring4])]),
                (''properties'', JObj [(''NAME'', JStr ''Tract 7''), (''polygon_index'', JInt 1),
                                       (''total_polygons'', JInt 2)])],
          example_polygon]"
  by (simp add: split_feature_def example_multipolygon_def example_polygon_def digit_def)

lemma split_features_passthrough:
  assumes "\<forall>f \<in> set fs. geometry_type f \<noteq> None \<and> \<not> is_multipolygon f"
  shows "split_features other fs acc = Inr (acc @ fs)"
  using assms
proof (induction fs arbitrary: acc)
  case Nil
  then show ?case by simp
next
  case (Cons f fs)
  have "split_feature other f acc = Inr (acc @ [f])"
    using Cons.prems by (simp add: split_feature_passthrough)
  then show ?case using Cons.IH [of "acc @ [f]"] Cons.prems by simp
qed

text \<open>
  Claim C4, as amended. A document that has a \<^verbatim>\<open>crs\<close> member and whose features all have
  a geometry type other than MultiPolygon (Polygon, say) is split without an exception:
  the new feature list is the input's feature list, element for element, and the file
  written holds the members \<^verbatim>\<open>type\<close>, \<^verbatim>\<open>crs\<close> (the input's) and \<^verbatim>\<open>features\<close>.
\<close>

theorem split_polygon_only_unchanged:
  assumes "files w ''opportunity_zones_wgs84.geojson'' = Some (Parsed geojson)"
    and "getitem geojson ''features'' = Inr (JArr features)"
    and "getitem geojson ''crs'' = Inr crs"
    and "\<forall>f \<in> set features. geometry_type f \<noteq> None \<and> \<not> is_multipolygon f"
  shows "split_document other geojson =
           Inr (features,
                JObj [(''type'', JStr ''FeatureCollection''), (''crs'', crs),
                      (''features'', JArr features)]) \<and>
         files (snd (split_multipolygon other w)) ''opportunity_zones_split.geojson'' =
           Some (Parsed (JObj [(''type'', JStr ''FeatureCollection''), (''crs'', crs),
                               (''features'', JArr features)]))"
proof -
  have "split_features other features [] = Inr features"
    using split_features_passthrough [OF assms(4), of other "[]"] by simp
  then have doc: "split_document other geojson =
           Inr (features,
                JObj [(''type'', JStr ''FeatureCollection''), (''crs'', crs),
                      (''features'', JArr features)])"
    by (rule split_document_ok [OF assms(2,3)])
  have "load_json w ''opportunity_zones_wgs84.geojson'' = Inr geojson"
    using assms(1) by (simp add: load_json_def)
  then show ?thesis
    using doc split_multipolygon_writes by blast
qed

lemma example_polygon_type: "geometry_type example_polygon = Some (JStr ''Polygon'')"
  by (simp add: geometry_type_def example_polygon_def)

theorem split_polygon_only_unchanged_witness:
  "files (world_of polygon_document) ''opportunity_zones_wgs84.geojson'' = Some (Parsed polygon_document) \<and>
   getitem polygon_document ''features'' = Inr (JArr [example_polygon]) \<and>
   getitem polygon_document ''crs'' = Inr example_crs \<and>
   geometry_type example_polygon \<noteq> None \<and> \<not> is_multipolygon example_polygon \<and>
   split_document (\<lambda>v. []) polygon_document =
           Inr ([example_polygon],
                JObj [(''type'', JStr ''FeatureCollection''), (''crs'', example_crs),
                      (''features'', JArr [example_polygon])]) \<and>
   files (snd (split_multipolygon (\<lambda>v. []) (world_of polygon_document))) ''opportunity_zones_split.geojson'' =
           Some (Parsed (JObj [(''type'', JStr ''FeatureCollection''), (''crs'', example_crs),
                               (''features'', JArr [example_polygon])]))"
proof -
  have h1: "files (world_of polygon_document) ''opportunity_zones_wgs84.geojson'' = Some (Parsed polygon_document)"
    by (simp add: world_of_def)
  have h2: "getitem polygon_document ''features'' = Inr (JArr [example_polygon])"
    by (simp add: polygon_document_def)
  have h3: "getitem polygon_document ''crs'' = Inr example_crs"
    by (simp add: polygon_document_def)
  have h5: "geometry_type example_polygon \<noteq> None \<and> \<not> is_multipolygon example_polygon"
    by (simp add: is_multipolygon_def example_polygon_type)
  have h4: "\<forall>f \<in> set [example_polygon]. geometry_type f \<noteq> None \<and> \<not> is_multipolygon f"
    using h5 by simp
  show ?thesis
    using split_polygon_only_unchanged [OF h1 h2 h3 h4, of "\<lambda>v. []"] h1 h2 h3 h5 by blast
qed

text \<open>
  Claim C4 as stated fails on a document of Polygon features that has no \<^verbatim>\<open>crs\<close> member:
  \<^verbatim>\<open>geojson['crs']\<close> raises \<^verbatim>\<open>KeyError\<close> after the loop, and nothing is written.
\<close>

theorem split_polygon_only_no_crs_counterexample:
  "geometry_type example_polygon = Some (JStr ''Polygon'') \<and>
   getitem polygon_document_no_crs ''features'' = Inr (JArr [example_polygon]) \<and>
   split_document (\<lambda>v. []) polygon_document_no_crs = Inl (KeyError ''crs'') \<and>
   split_multipolygon (\<lambda>v. []) (world_of polygon_document_no_crs) =
     (Inl (KeyError ''crs''), world_of polygon_document_no_crs) \<and>
   files (world_of polygon_document_no_crs) ''opportunity_zones_split.geojson'' = None"
proof -
  have f: "split_features (\<lambda>v. []) [example_polygon] [] = Inr [example_polygon]"
    by (simp add: split_feature_def example_polygon_def)
  have d: "split_document (\<lambda>v. []) polygon_document_no_crs = Inl (KeyError ''crs'')"
    using f by (simp add: split_document_def polygon_document_no_crs_def)
  have l: "load_json (world_of polygon_document_no_crs) ''opportunity_zones_wgs84.geojson'' =
             Inr polygon_document_no_crs"
    by (simp add: load_json_def world_of_def)
  have "split_multipolygon (\<lambda>v. []) (world_of polygon_document_no_crs) =
         (Inl (KeyError ''crs''), world_of polygon_document_no_crs)"
    using l d by (rule split_multipolygon_fails)
  moreover have "getitem polygon_document_no_crs ''features'' = Inr (JArr [example_polygon])"
    by (simp add: polygon_document_no_crs_def)
  moreover have "files (world_of polygon_document_no_crs) ''opportunity_zones_split.geojson'' = None"
    by (simp add: world_of_def)
  ultimately show ?thesis using d example_polygon_type by simp
qed

section \<open>Properties of the conversion script\<close>

lemma map_result_all2:
  "map_result f xs = Inr ys \<Longrightarrow> list_all2 (\<lambda>x y. f x = Inr y) xs ys"
  by (induction xs arbitrary: ys) (auto split: sum.splits)

lemma convert_ring_loop_inv:
  "convert_ring_loop transform ring i = Inr ring' \<Longrightarrow>
     length ring' = length ring \<and>
     (\<forall>j < i. ring' ! j = ring ! j) \<and>
     (\<forall>j. i \<le> j \<and> j < length ring \<longrightarrow> convert_coord transform (ring ! j) = Inr (ring' ! j))"
proof (induction transform ring i arbitrary: ring' rule: convert_ring_loop.induct)
  case (1 transform ring i)
  show ?case
  proof (cases "i < length ring")
    case False
    then have "ring' = ring"
      using "1.prems" by (simp add: convert_ring_loop.simps [of transform ring i])
    then show ?thesis using False by auto
  next
    case True
    then obtain c where c: "convert_coord transform (ring ! i) = Inr c"
      and run: "convert_ring_loop transform (ring[i := c]) (Suc i) = Inr ring'"
      using "1.prems" by (auto simp: convert_ring_loop.simps [of transform ring i] split: sum.splits)
    have ih: "length ring' = length (ring[i := c]) \<and>
        (\<forall>j < Suc i. ring' ! j = ring[i := c] ! j) \<and>
        (\<forall>j. Suc i \<le> j \<and> j < length (ring[i := c]) \<longrightarrow>
            convert_coord transform (ring[i := c] ! j) = Inr (ring' ! j))"
      using "1.IH" [OF True c run] .
    have len: "length ring' = length ring" using ih by simp
    have before: "ring' ! j = ring ! j" if "j < i" for j
    proof -
      have "ring' ! j = ring[i := c] ! j" using ih that by simp
      then show ?thesis using that by simp
    qed
    have at: "ring' ! i = c"
    proof -
      have "ring' ! i = ring[i := c] ! i" using ih by simp
      then show ?thesis using True by simp
    qed
    have after: "convert_coord transform (ring ! j) = Inr (ring' ! j)" if "i \<le> j" "j < length ring" for j
    proof (cases "j = i")
      case True
      then show ?thesis using c at by simp
    next
      case False
      then have "Suc i \<le> j \<and> j < length (ring[i := c])" using that by simp
      then have "convert_coord transform (ring[i := c] ! j) = Inr (ring' ! j)" using ih by blast
      then show ?thesis using False by simp
    qed
    show ?thesis using len before after by blast
  qed
qed

lemma convert_ring_loop_all2:
  assumes "convert_ring_loop transform ring 0 = Inr ring'"
  shows "list_all2 (\<lambda>c c'. convert_coord transform c = Inr c') ring ring'"
  using convert_ring_loop_inv [OF assms] by (simp add: list_all2_conv_all_nth)

lemma convert_ring_items:
  assumes "convert_ring transform ring = Inr ring'"
  shows "list_all2 (\<lambda>c c'. convert_coord transform c = Inr c') (items ring) (items ring')"
proof (cases ring)
  case (JArr coords)
  then show ?thesis
    using assms convert_ring_loop_all2 [of transform coords]
    by (auto simp: convert_ring_def items_def split: sum.splits)
qed (use assms in \<open>auto simp: convert_ring_def items_def split: sum.splits list.splits\<close>)

lemma convert_ring_closed:
  assumes "convert_ring transform ring = Inr ring'" and "ring_closed ring"
  shows "ring_closed ring'"
proof -
  obtain coords where ring: "ring = JArr coords" and ne: "coords \<noteq> []" and cl: "hd coords = last coords"
    using assms(2) by (auto simp: ring_closed_def split: json.splits)
  obtain coords' where ring': "ring' = JArr coords'"
    using assms(1) ring by (auto simp: convert_ring_def split: sum.splits)
  have rel: "list_all2 (\<lambda>c c'. convert_coord transform c = Inr c') coords coords'"
    using convert_ring_items [OF assms(1)] ring ring' by (simp add: items_def)
  then have len: "length coords' = length coords" by (simp add: list_all2_lengthD)
  have ne': "coords' \<noteq> []" using len ne by auto
  have pos: "0 < length coords" using ne by simp
  have first: "convert_coord transform (coords ! 0) = Inr (coords' ! 0)"
    using rel pos by (simp add: list_all2_conv_all_nth)
  have lst: "convert_coord transform (coords ! (length coords - 1)) = Inr (coords' ! (length coords - 1))"
    using rel pos by (simp add: list_all2_conv_all_nth)
  have "coords ! 0 = coords ! (length coords - 1)"
    using cl ne by (simp add: hd_conv_nth last_conv_nth)
  then have "(Inr (coords' ! 0) :: json result) = Inr (coords' ! (length coords - 1))"
    using first lst by simp
  then have "hd coords' = last coords'"
    using ne' len by (simp add: hd_conv_nth last_conv_nth)
  then show ?thesis using ring' ne' by (simp add: ring_closed_def)
qed

lemma convert_polygon_items:
  assumes "convert_polygon transform polygon = Inr polygon'"
  shows "list_all2 (\<lambda>r r'. convert_ring transform r = Inr r') (items polygon) (items polygon')"
proof (cases polygon)
  case (JArr rings)
  then show ?thesis
    using assms map_result_all2 [of "convert_ring transform" rings]
    by (auto simp: convert_polygon_def items_def split: sum.splits)
qed (use assms in \<open>auto simp: convert_polygon_def items_def split: sum.splits\<close>)

lemma getitem_dict_set_same: "getitem (JObj (dict_set d k v)) k = Inr v"
  by (simp add: map_of_dict_set)

lemma getitem_dict_set_other: "k' \<noteq> k \<Longrightarrow> getitem (JObj (dict_set d k v)) k' = getitem (JObj d) k'"
  by (simp add: map_of_dict_set)

lemma coordinates_of_set_coordinates:
  assumes "getitem feature ''geometry'' = Inr geometry" and "getitem geometry ''type'' = Inr ty"
  shows "coordinates_of (set_coordinates feature c) = Some c"
proof -
  obtain f where f: "feature = JObj f" "map_of f ''geometry'' = Some geometry"
    using assms(1) by (cases feature) (auto split: option.splits)
  obtain g where g: "geometry = JObj g"
    using assms(2) by (cases geometry) auto
  show ?thesis
    unfolding f(1) g coordinates_of_def set_coordinates_def using f(2) g
    by (simp add: map_of_dict_set)
qed

lemma convert_feature_polygons:
  assumes "convert_feature transform feature = Inr feature'"
  shows "feature' = feature \<or>
         (\<exists>polygons polygons'. is_multipolygon feature \<and>
             coordinates_of feature = Some (JArr polygons) \<and>
             coordinates_of feature' = Some (JArr polygons') \<and>
             list_all2 (\<lambda>p p'. convert_polygon transform p = Inr p') polygons polygons')"
proof -
  obtain geometry ty where g: "getitem feature ''geometry'' = Inr geometry" "getitem geometry ''type'' = Inr ty"
    using assms by (auto simp: convert_feature_def split: sum.splits)
  show ?thesis
  proof (cases "ty = JStr ''MultiPolygon''")
    case False
    then show ?thesis using assms g by (simp add: convert_feature_def)
  next
    case True
    then obtain coordinates polygons polygons' where c: "getitem geometry ''coordinates'' = Inr coordinates"
      "py_iter coordinates = Inr polygons"
      "map_result (convert_polygon transform) polygons = Inr polygons'"
      and f': "feature' = (case coordinates of JArr _ \<Rightarrow> set_coordinates feature (JArr polygons') | _ \<Rightarrow> feature)"
      using assms g by (auto simp: convert_feature_def split: sum.splits)
    show ?thesis
    proof (cases coordinates)
      case (JArr ps)
      then have ps: "ps = polygons" using c(2) by simp
      have "coordinates_of feature = Some (JArr polygons)"
        using g(1) c(1) JArr ps by (simp add: coordinates_of_def)
      moreover have "coordinates_of feature' = Some (JArr polygons')"
        using f' JArr coordinates_of_set_coordinates [OF g] by simp
      moreover have "is_multipolygon feature"
        using g True by (simp add: is_multipolygon_def geometry_type_def)
      ultimately show ?thesis using map_result_all2 [OF c(3)] by blast
    qed (use f' in simp_all)
  qed
qed

lemma convert_feature_unchanged:
  assumes "convert_feature transform feature = Inr feature'" and "\<not> is_multipolygon feature"
  shows "feature' = feature"
  using convert_feature_polygons [OF assms(1)] assms(2) by blast

lemma convert_feature_rings:
  assumes "convert_feature transform feature = Inr feature'"
  shows "list_all2 (\<lambda>r r'. convert_ring transform r = Inr r') (rings_of feature) (rings_of feature') \<or>
         feature' = feature"
proof -
  consider "feature' = feature"
    | polygons polygons' where "coordinates_of feature = Some (JArr polygons)"
        "coordinates_of feature' = Some (JArr polygons')"
        "list_all2 (\<lambda>p p'. convert_polygon transform p = Inr p') polygons polygons'"
    using convert_feature_polygons [OF assms] by blast
  then show ?thesis
  proof cases
    case 1
    then show ?thesis by simp
  next
    case 2
    have "list_all2 (\<lambda>p p'. list_all2 (\<lambda>r r'. convert_ring transform r = Inr r') (items p) (items p'))
            polygons polygons'"
      using 2(3) by (rule list_all2_mono) (rule convert_polygon_items)
    then have "list_all2 (list_all2 (\<lambda>r r'. convert_ring transform r = Inr r'))
            (map items polygons) (map items polygons')"
      by (simp add: list.rel_map)
    then have "list_all2 (\<lambda>r r'. convert_ring transform r = Inr r')
            (concat (map items polygons)) (concat (map items polygons'))"
      by (rule concat_transfer [THEN rel_funD])
    then show ?thesis using 2(1,2) by (simp add: rings_of_def items_def)
  qed
qed

lemma convert_feature_shape:
  assumes "convert_feature transform feature = Inr feature'"
  shows "feature_shape feature' = feature_shape feature"
proof -
  consider "feature' = feature"
    | polygons polygons' where "coordinates_of feature = Some (JArr polygons)"
        "coordinates_of feature' = Some (JArr polygons')"
        "list_all2 (\<lambda>p p'. convert_polygon transform p = Inr p') polygons polygons'"
    using convert_feature_polygons [OF assms] by blast
  then show ?thesis
  proof cases
    case 1
    then show ?thesis by simp
  next
    case 2
    have ring: "length (items r') = length (items r)" if "convert_ring transform r = Inr r'" for r r'
      using convert_ring_items [OF that] by (simp add: list_all2_lengthD)
    have poly: "map (\<lambda>r. length (items r)) (items p') = map (\<lambda>r. length (items r)) (items p)"
      if "convert_polygon transform p = Inr p'" for p p'
    proof -
      have "list_all2 (\<lambda>r r'. length (items r') = length (items r)) (items p) (items p')"
        using convert_polygon_items [OF that] by (rule list_all2_mono) (rule ring)
      then have "list_all2 (=) (map (\<lambda>r. length (items r)) (items p')) (map (\<lambda>r. length (items r)) (items p))"
        by (simp add: list.rel_map list_all2_conv_all_nth)
      then show ?thesis by (simp add: list.rel_eq)
    qed
    have "list_all2 (\<lambda>p p'. map (\<lambda>r. length (items r)) (items p') = map (\<lambda>r. length (items r)) (items p))
            polygons polygons'"
      using 2(3) by (rule list_all2_mono) (rule poly)
    then have "list_all2 (=) (map (\<lambda>p. map (\<lambda>r. length (items r)) (items p)) polygons')
                 (map (\<lambda>p. map (\<lambda>r. length (items r)) (items p)) polygons)"
      by (simp add: list.rel_map list_all2_conv_all_nth)
    then show ?thesis using 2(1,2) by (simp add: list.rel_eq feature_shape_def items_def)
  qed
qed

lemma convert_document_features:
  assumes "convert_document transform geojson = Inr converted"
    and "getitem geojson ''features'' = Inr (JArr features)"
  shows "\<exists>features'. getitem converted ''features'' = Inr (JArr features') \<and>
           getitem converted ''crs'' = Inr wgs84_crs \<and>
           list_all2 (\<lambda>f f'. convert_feature transform f = Inr f') features features'"
proof -
  obtain d where d: "geojson = JObj d"
    using assms(2) by (cases geojson) auto
  obtain features' where fs: "map_result (convert_feature transform) features = Inr features'"
    and out: "converted = JObj (dict_set (dict_set d ''features'' (JArr features')) ''crs'' wgs84_crs)"
    using assms unfolding d by (auto simp: convert_document_def split: sum.splits)
  have "getitem converted ''features'' = Inr (JArr features')"
    unfolding out by (simp add: map_of_dict_set)
  moreover have "getitem converted ''crs'' = Inr wgs84_crs"
    unfolding out by (simp add: map_of_dict_set)
  ultimately show ?thesis using map_result_all2 [OF fs] by blast
qed

lemma convert_main_writes:
  assumes "files w ''Opportunity_Zones_-4513523067566272484.geojson'' = Some (Parsed geojson)"
    and "convert_document transform geojson = Inr converted"
  shows "files (snd (convert_main transform w)) ''opportunity_zones_wgs84.geojson'' = Some (Parsed converted)"
  using assms
  by (simp add: convert_main_def convert_coordinates_def load_json_def Let_def say_def dump_json_def
        split: sum.splits)

text \<open>
  Claim C2. When the conversion writes a document, it has the features of the input in
  the same number and order; every feature has the same number of polygons, every
  polygon the same number of rings and every ring the same number of coordinate pairs,
  in the same order; and a ring whose first pair equals its last pair before the
  transformation has equal first and last pairs after it.
\<close>

theorem reprojection_preserves_shape:
  assumes "files w ''Opportunity_Zones_-4513523067566272484.geojson'' = Some (Parsed geojson)"
    and "getitem geojson ''features'' = Inr (JArr features)"
    and "convert_document transform geojson = Inr converted"
  shows "files (snd (convert_main transform w)) ''opportunity_zones_wgs84.geojson'' = Some (Parsed converted) \<and>
         (\<exists>features'. getitem converted ''features'' = Inr (JArr features') \<and>
           length features' = length features \<and>
           (\<forall>k < length features.
              feature_shape (features' ! k) = feature_shape (features ! k) \<and>
              length (rings_of (features' ! k)) = length (rings_of (features ! k)) \<and>
              (\<forall>r < length (rings_of (features ! k)).
                 ring_closed (rings_of (features ! k) ! r) \<longrightarrow> ring_closed (rings_of (features' ! k) ! r))))"
proof -
  obtain features' where fs: "getitem converted ''features'' = Inr (JArr features')"
      "list_all2 (\<lambda>f f'. convert_feature transform f = Inr f') features features'"
    using convert_document_features [OF assms(3,2)] by blast
  have len: "length features' = length features"
    using fs(2) by (simp add: list_all2_lengthD)
  have each: "feature_shape (features' ! k) = feature_shape (features ! k) \<and>
              length (rings_of (features' ! k)) = length (rings_of (features ! k)) \<and>
              (\<forall>r < length (rings_of (features ! k)).
                 ring_closed (rings_of (features ! k) ! r) \<longrightarrow> ring_closed (rings_of (features' ! k) ! r))"
    if "k < length features" for k
  proof -
    have c: "convert_feature transform (features ! k) = Inr (features' ! k)"
      using fs(2) that by (simp add: list_all2_conv_all_nth)
    have shape: "feature_shape (features' ! k) = feature_shape (features ! k)"
      using c by (rule convert_feature_shape)
    consider "features' ! k = features ! k"
      | "list_all2 (\<lambda>r r'. convert_ring transform r = Inr r') (rings_of (features ! k)) (rings_of (features' ! k))"
      using convert_feature_rings [OF c] by blast
    then show ?thesis
    proof cases
      case 1
      then show ?thesis by simp
    next
      case 2
      have "length (rings_of (features' ! k)) = length (rings_of (features ! k))"
        using 2 by (simp add: list_all2_lengthD)
      moreover have "ring_closed (rings_of (features' ! k) ! r)"
        if "r < length (rings_of (features ! k))" "ring_closed (rings_of (features ! k) ! r)" for r
      proof -
        have "convert_ring transform (rings_of (features ! k) ! r) = Inr (rings_of (features' ! k) ! r)"
          using 2 that(1) by (simp add: list_all2_conv_all_nth)
        then show ?thesis using that(2) by (rule convert_ring_closed)
      qed
      ultimately show ?thesis using shape by blast
    qed
  qed
  show ?thesis
    using convert_main_writes [OF assms(1,3)] fs(1) len each by blast
qed

lemma convert_example:
  "convert_document swap_transform source_document =
     Inr (JObj [(''type'', JStr ''FeatureCollection''),
                (''crs'', JObj [(''type'', JStr ''name''), (''properties'', JObj [(''name'', JStr ''EPSG:4326'')])]),
                (''features'',
                   JArr [JObj [(''type'', JStr ''Feature''), (''id'', JStr ''7''),
                           (''geometry'', JObj [(''type'', JStr ''MultiPolygon''),
                              (''coordinates'',
                                 JArr [JArr [JArr [JArr [JInt 0, JInt 0], JArr [JInt 0, JInt 4], JArr [JInt 4, JInt 4],
                                                   JArr [JInt 4, JInt 0], JArr [JInt 0, JInt 0]]],
                                       JArr [JArr [JArr [JInt 10, JInt 10], JArr [JInt 10, JInt 12],
                                                   JArr [JInt 12, JInt 11], JArr [JInt 10, JInt 10]]]])]),
                           (''properties'', JObj [(''NAME'', JStr ''Tract 7'')])],
                         example_point])])"
  by (simp add: convert_document_def source_document_def example_multipolygon_def example_point_def
        convert_feature_def convert_polygon_def convert_ring_def convert_ring_loop.simps convert_coord_def
        swap_transform_def set_coordinates_def wgs84_crs_def example_ring5_def example_ring4_def)

lemma convert_example_document: "convert_document swap_transform source_document = Inr converted_document"
  unfolding converted_document_def by (rule convert_example)

lemma source_world_input:
  "files (source_world doc) ''Opportunity_Zones_-4513523067566272484.geojson'' = Some (Parsed doc)"
  by (simp add: source_world_def)

lemma source_document_features:
  "getitem source_document ''features'' = Inr (JArr [example_multipolygon, example_point])"
  by (simp add: source_document_def)

theorem reprojection_preserves_shape_witness:
  "files (source_world source_document) ''Opportunity_Zones_-4513523067566272484.geojson'' =
     Some (Parsed source_document) \<and>
   getitem source_document ''features'' = Inr (JArr [example_multipolygon, example_point]) \<and>
   convert_document swap_transform source_document = Inr converted_document \<and>
   files (snd (convert_main swap_transform (source_world source_document))) ''opportunity_zones_wgs84.geojson'' =
     Some (Parsed converted_document) \<and>
   (\<exists>features'. getitem converted_document ''features'' = Inr (JArr features') \<and>
           length features' = length [example_multipolygon, example_point] \<and>
           (\<forall>k < length [example_multipolygon, example_point].
              feature_shape (features' ! k) = feature_shape ([example_multipolygon, example_point] ! k) \<and>
              length (rings_of (features' ! k)) = length (rings_of ([example_multipolygon, example_point] ! k)) \<and>
              (\<forall>r < length (rings_of ([example_multipolygon, example_point] ! k)).
                 ring_closed (rings_of ([example_multipolygon, example_point] ! k) ! r) \<longrightarrow>
                 ring_closed (rings_of (features' ! k) ! r))))"
  using reprojection_preserves_shape [OF source_world_input source_document_features convert_example_document]
    source_world_input [of source_document] source_document_features convert_example_document
  by blast

lemma example_shape:
  "feature_shape example_multipolygon = [[5], [4]] \<and>
   map ring_closed (rings_of example_multipolygon) = [True, True]"
  by (simp add: feature_shape_def rings_of_def ring_closed_def coordinates_of_def items_def
        example_multipolygon_def example_ring5_def example_ring4_def)

text \<open>
  Claim C10. A feature whose geometry type is not MultiPolygon (a Point, a Polygon) is
  written back as it was read, coordinates included, while the \<^verbatim>\<open>crs\<close> member of the
  document written names EPSG:4326.
\<close>

theorem reprojection_skips_other_geometries:
  assumes "files w ''Opportunity_Zones_-4513523067566272484.geojson'' = Some (Parsed geojson)"
    and "getitem geojson ''features'' = Inr (JArr features)"
    and "convert_document transform geojson = Inr converted"
  shows "files (snd (convert_main transform w)) ''opportunity_zones_wgs84.geojson'' = Some (Parsed converted) \<and>
         getitem converted ''crs'' =
           Inr (JObj [(''type'', JStr ''name''), (''properties'', JObj [(''name'', JStr ''EPSG:4326'')])]) \<and>
         (\<exists>features'. getitem converted ''features'' = Inr (JArr features') \<and>
           length features' = length features \<and>
           (\<forall>k < length features. \<not> is_multipolygon (features ! k) \<longrightarrow> features' ! k = features ! k))"
proof -
  obtain features' where fs: "getitem converted ''features'' = Inr (JArr features')"
      "getitem converted ''crs'' = Inr wgs84_crs"
      "list_all2 (\<lambda>f f'. convert_feature transform f = Inr f') features features'"
    using convert_document_features [OF assms(3,2)] by blast
  have len: "length features' = length features"
    using fs(3) by (simp add: list_all2_lengthD)
  have "features' ! k = features ! k" if "k < length features" "\<not> is_multipolygon (features ! k)" for k
  proof -
    have "convert_feature transform (features ! k) = Inr (features' ! k)"
      using fs(3) that(1) by (simp add: list_all2_conv_all_nth)
    then show ?thesis using that(2) by (rule convert_feature_unchanged)
  qed
  then show ?thesis
    using convert_main_writes [OF assms(1,3)] fs(1,2) len by (auto simp: wgs84_crs_def)
qed

lemma point_document_features: "getitem point_document ''features'' = Inr (JArr [example_point])"
  by (simp add: point_document_def)

lemma convert_point_document: "convert_document swap_transform point_document = Inr converted_point_document"
  by (simp add: convert_document_def point_document_def converted_point_document_def example_point_def
        convert_feature_def wgs84_crs_def)

lemma example_point_not_multipolygon: "\<not> is_multipolygon example_point"
  by (simp add: is_multipolygon_def geometry_type_def example_point_def)

theorem reprojection_skips_other_geometries_witness:
  "files (source_world point_document) ''Opportunity_Zones_-4513523067566272484.geojson'' =
     Some (Parsed point_document) \<and>
   getitem point_document ''features'' = Inr (JArr [example_point]) \<and>
   convert_document swap_transform point_document = Inr converted_point_document \<and>
   \<not> is_multipolygon example_point \<and>
   files (snd (convert_main swap_transform (source_world point_document))) ''opportunity_zones_wgs84.geojson'' =
     Some (Parsed converted_point_document) \<and>
   getitem converted_point_document ''crs'' =
     Inr (JObj [(''type'', JStr ''name''), (''properties'', JObj [(''name'', JStr ''EPSG:4326'')])]) \<and>
   (\<exists>features'. getitem converted_point_document ''features'' = Inr (JArr features') \<and>
      length features' = length [example_point] \<and>
      (\<forall>k < length [example_point]. \<not> is_multipolygon ([example_point] ! k) \<longrightarrow>
          features' ! k = [example_point] ! k))"
  using reprojection_skips_other_geometries [OF source_world_input point_document_features convert_point_document]
    source_world_input [of point_document] point_document_features convert_point_document
    example_point_not_multipolygon
  by blast

section \<open>Failures and exit status\<close>

lemma map_result_fails:
  assumes "i < length xs" and "f (xs ! i) = Inl e"
  shows "\<exists>e'. map_result f xs = Inl e'"
proof (cases "map_result f xs")
  case (Inl e')
  then show ?thesis by blast
next
  case (Inr ys)
  then have "f (xs ! i) = Inr (ys ! i)"
    using map_result_all2 [OF Inr] assms(1) by (simp add: list_all2_conv_all_nth)
  then show ?thesis using assms(2) by simp
qed

lemma convert_ring_fails:
  assumes "i < length coords" and "convert_coord transform (coords ! i) = Inl e"
  shows "\<exists>e'. convert_ring transform (JArr coords) = Inl e'"
proof (cases "convert_ring_loop transform coords 0")
  case (Inl e')
  then show ?thesis by (simp add: convert_ring_def)
next
  case (Inr coords')
  then have "convert_coord transform (coords ! i) = Inr (coords' ! i)"
    using convert_ring_loop_inv [OF Inr] assms(1) by simp
  then show ?thesis using assms(2) by simp
qed

lemma convert_polygon_fails:
  assumes "r < length rings" and "convert_ring transform (rings ! r) = Inl e"
  shows "\<exists>e'. convert_polygon transform (JArr rings) = Inl e'"
proof -
  obtain e' where "map_result (convert_ring transform) rings = Inl e'"
    using map_result_fails [of r rings "convert_ring transform" e] assms by blast
  then show ?thesis by (simp add: convert_polygon_def)
qed

lemma convert_feature_fails:
  assumes "is_multipolygon feature" and "coordinates_of feature = Some (JArr polygons)"
    and "j < length polygons" and "convert_polygon transform (polygons ! j) = Inl e"
  shows "\<exists>e'. convert_feature transform feature = Inl e'"
proof -
  obtain geometry where g: "getitem feature ''geometry'' = Inr geometry"
      "getitem geometry ''type'' = Inr (JStr ''MultiPolygon'')"
    using assms(1) by (auto simp: is_multipolygon_def geometry_type_def split: sum.splits)
  have c: "getitem geometry ''coordinates'' = Inr (JArr polygons)"
    using assms(2) g(1) by (auto simp: coordinates_of_def split: sum.splits)
  obtain e' where "map_result (convert_polygon transform) polygons = Inl e'"
    using map_result_fails [of j polygons "convert_polygon transform" e] assms(3,4) by blast
  then show ?thesis using g c by (simp add: convert_feature_def)
qed

lemma convert_document_fails:
  assumes "getitem geojson ''features'' = Inr (JArr features)"
    and "k < length features" and "convert_feature transform (features ! k) = Inl e"
  shows "\<exists>e'. convert_document transform geojson = Inl e'"
proof -
  obtain e' where "map_result (convert_feature transform) features = Inl e'"
    using map_result_fails [of k features "convert_feature transform" e] assms(2,3) by blast
  then show ?thesis using assms(1) by (simp add: convert_document_def)
qed

lemma convert_main_fails:
  assumes "files w ''Opportunity_Zones_-4513523067566272484.geojson'' = Some (Parsed geojson)"
    and "convert_document transform geojson = Inl e"
  shows "convert_main transform w =
           (1, w\<lparr>console := console w @
                   [SayError e, Say ''Make sure pyproj is installed: pip install pyproj'']\<rparr>)"
  using assms
  by (simp add: convert_main_def convert_coordinates_def load_json_def say_def)

text \<open>
  Claim C3, as amended. When a coordinate pair of a ring of a polygon of a MultiPolygon
  feature does not convert (it has fewer than two components, or the projection raises),
  the conversion raises an exception; the script prints it and the hint and exits with
  status 1, and no file is written or changed.
\<close>

theorem reprojection_failure_writes_nothing:
  assumes "files w ''Opportunity_Zones_-4513523067566272484.geojson'' = Some (Parsed geojson)"
    and "getitem geojson ''features'' = Inr (JArr features)"
    and "k < length features" and "is_multipolygon (features ! k)"
    and "coordinates_of (features ! k) = Some (JArr polygons)"
    and "j < length polygons" and "polygons ! j = JArr rings"
    and "r < length rings" and "rings ! r = JArr coords"
    and "i < length coords" and "convert_coord transform (coords ! i) = Inl e0"
  shows "\<exists>e. convert_document transform geojson = Inl e \<and>
           convert_main transform w =
             (1, w\<lparr>console := console w @
                     [SayError e, Say ''Make sure pyproj is installed: pip install pyproj'']\<rparr>) \<and>
           files (snd (convert_main transform w)) = files w"
proof -
  obtain e1 where "convert_ring transform (rings ! r) = Inl e1"
    using convert_ring_fails [OF assms(10,11)] assms(9) by auto
  then obtain e2 where "convert_polygon transform (polygons ! j) = Inl e2"
    using convert_polygon_fails [OF assms(8)] assms(7) by metis
  then obtain e3 where "convert_feature transform (features ! k) = Inl e3"
    using convert_feature_fails [OF assms(4,5,6)] by blast
  then obtain e where e: "convert_document transform geojson = Inl e"
    using convert_document_fails [OF assms(2,3)] by blast
  have "convert_main transform w =
          (1, w\<lparr>console := console w @
                  [SayError e, Say ''Make sure pyproj is installed: pip install pyproj'']\<rparr>)"
    using assms(1) e by (rule convert_main_fails)
  then show ?thesis using e by simp
qed

lemma malformed_first_fails: "convert_document swap_transform malformed_first = Inl IndexError"
  by (simp add: convert_document_def malformed_first_def malformed_multipolygon_def
        convert_feature_def convert_polygon_def convert_ring_def convert_ring_loop.simps convert_coord_def)

lemma malformed_later_fails: "convert_document swap_transform malformed_later = Inl IndexError"
  by (simp add: convert_document_def malformed_later_def malformed_multipolygon_def example_multipolygon_def
        example_ring5_def example_ring4_def set_coordinates_def swap_transform_def
        convert_feature_def convert_polygon_def convert_ring_def convert_ring_loop.simps convert_coord_def)

text \<open>
  Claim C3 as stated fails: a pair with one component is a plain \<^verbatim>\<open>IndexError\<close>, and the
  script prints the same two lines whether the pair is the first of the first feature or
  the second of the second feature; neither a feature index nor a position is reported.
\<close>

theorem reprojection_error_names_no_position_counterexample:
  "convert_coord swap_transform (JArr [JInt 1]) = Inl IndexError \<and>
   convert_document swap_transform malformed_first = Inl IndexError \<and>
   convert_document swap_transform malformed_later = Inl IndexError \<and>
   console (snd (convert_main swap_transform (source_world malformed_first))) =
     [SayError IndexError, Say ''Make sure pyproj is installed: pip install pyproj''] \<and>
   console (snd (convert_main swap_transform (source_world malformed_later))) =
     [SayError IndexError, Say ''Make sure pyproj is installed: pip install pyproj'']"
  using convert_main_fails [OF source_world_input malformed_first_fails]
    convert_main_fails [OF source_world_input malformed_later_fails]
    malformed_first_fails malformed_later_fails
  by (simp add: convert_coord_def source_world_def)

theorem reprojection_failure_writes_nothing_witness:
  "files (source_world malformed_first) ''Opportunity_Zones_-4513523067566272484.geojson'' =
     Some (Parsed malformed_first) \<and>
   getitem malformed_first ''features'' = Inr (JArr [malformed_multipolygon [JArr [JInt 1]]]) \<and>
   is_multipolygon (malformed_multipolygon [JArr [JInt 1]]) \<and>
   coordinates_of (malformed_multipolygon [JArr [JInt 1]]) = Some (JArr [JArr [JArr [JArr [JInt 1]]]]) \<and>
   convert_coord swap_transform (JArr [JInt 1]) = Inl IndexError \<and>
   (\<exists>e. convert_document swap_transform malformed_first = Inl e \<and>
        convert_main swap_transform (source_world malformed_first) =
          (1, (source_world malformed_first)\<lparr>console := console (source_world malformed_first) @
                  [SayError e, Say ''Make sure pyproj is installed: pip install pyproj'']\<rparr>) \<and>
        files (snd (convert_main swap_transform (source_world malformed_first))) =
          files (source_world malformed_first))"
proof -
  have h2: "getitem malformed_first ''features'' = Inr (JArr [malformed_multipolygon [JArr [JInt 1]]])"
    by (simp add: malformed_first_def)
  have h4: "is_multipolygon ([malformed_multipolygon [JArr [JInt 1]]] ! 0)"
    by (simp add: is_multipolygon_def geometry_type_def malformed_multipolygon_def)
  have h5: "coordinates_of ([malformed_multipolygon [JArr [JInt 1]]] ! 0) = Some (JArr [JArr [JArr [JArr [JInt 1]]]])"
    by (simp add: coordinates_of_def malformed_multipolygon_def)
  have h11: "convert_coord swap_transform ([JArr [JInt 1]] ! 0) = Inl IndexError"
    by (simp add: convert_coord_def)
  have "\<exists>e. convert_document swap_transform malformed_first = Inl e \<and>
        convert_main swap_transform (source_world malformed_first) =
          (1, (source_world malformed_first)\<lparr>console := console (source_world malformed_first) @
                  [SayError e, Say ''Make sure pyproj is installed: pip install pyproj'']\<rparr>) \<and>
        files (snd (convert_main swap_transform (source_world malformed_first))) =
          files (source_world malformed_first)"
    by (rule reprojection_failure_writes_nothing [OF source_world_input h2 _ h4 h5 _ _ _ _ _ h11,
          where j = 0 and r = 0 and rings = "[JArr [JArr [JInt 1]]]"]) simp_all
  then show ?thesis
    using source_world_input [of malformed_first] h2 h4 h5 h11 by simp
qed

text \<open>
  Claim C5 at a failing run of the splitting script: with no input file the handler
  prints the exception and the traceback, and the exit status is 0.
\<close>

theorem split_main_missing_input_exits_zero:
  "split_main (\<lambda>v. []) empty_world =
     (0, \<lparr>files = Map.empty,
          console = [SayError (FileNotFoundError ''opportunity_zones_wgs84.geojson''), Traceback]\<rparr>)"
  by (simp add: split_main_def split_multipolygon_def load_json_def say_def empty_world_def)

text \<open>
  The splitting script ends with status 0 whatever happens; the conversion script ends
  with status 1 exactly when \<^verbatim>\<open>convert_coordinates\<close> raises.
\<close>

lemma split_main_exit_status: "fst (split_main other w) = 0"
  by (simp add: split_main_def split: prod.splits sum.splits)

lemma convert_main_exit_status:
  "fst (convert_main transform w) = (case fst (convert_coordinates transform w) of Inl e \<Rightarrow> 1 | Inr u \<Rightarrow> 0)"
  by (simp add: convert_main_def split: prod.splits sum.splits)

lemma convert_main_missing_input:
  "convert_main transform empty_world =
     (1, \<lparr>files = Map.empty,
          console = [SayError (FileNotFoundError ''Opportunity_Zones_-4513523067566272484.geojson''),
                     Say ''Make sure pyproj is installed: pip install pyproj'']\<rparr>)"
  by (simp add: convert_main_def convert_coordinates_def load_json_def say_def empty_world_def)

section \<open>Properties of the zone table loader\<close>

lemma load_rows_filter:
  "load_rows rows qozs = qozs @ map zone_of_row (filter recognized rows)"
proof (induction rows arbitrary: qozs)
  case Nil
  then show ?case by simp
next
  case (Cons row rows)
  have "recognized row = (5 \<le> length row \<and> row ! 0 \<noteq> [] \<and> row ! 0 \<in> set valid_states)"
    by (cases row) (simp_all add: recognized_def)
  then show ?case using Cons.IH by (simp add: zone_of_row_def)
qed

lemma valid_states_fifty: "length valid_states = 50 \<and> distinct valid_states"
  by (simp add: valid_states_def)

text \<open>
  Claim C7. The loader returns, in input order, the zones of exactly the rows that have at
  least five fields and whose first field is non-empty and one of the fifty state names
  of the allow-list; every other row (a header, a blank row, an unrecognized region) is
  skipped.
\<close>

theorem load_qozs_csv_filter:
  "load_qozs_csv rows = map zone_of_row (filter recognized rows) \<and>
   length valid_states = 50 \<and> distinct valid_states"
  using load_rows_filter [of rows "[]"] valid_states_fifty by (simp add: load_qozs_csv_def)

theorem load_qozs_csv_filter_witness:
  "load_qozs_csv example_rows =
     [\<lparr>state = ''Alabama'', county = ''Autauga'', tract_id = ''01001020700'',
       zone_type = ''Low-Income Community'', year_range = ''2011-2015''\<rparr>,
      \<lparr>state = ''Wyoming'', county = ''Albany'', tract_id = ''56001963900'',
       zone_type = ''Low-Income Community'', year_range = ''2011-2015''\<rparr>]"
proof -
  have "filter recognized example_rows =
          [[''Alabama'', ''Autauga'', ''01001020700'', ''Low-Income Community'', ''2011-2015''],
           [''Wyoming'', ''Albany'', ''56001963900'', ''Low-Income Community'', ''2011-2015'', ''extra'']]"
    by (simp add: example_rows_def recognized_def valid_states_def)
  then show ?thesis
    using load_qozs_csv_filter [of example_rows] by (simp add: zone_of_row_def)
qed

section \<open>Properties of the boundary lookups\<close>

lemma usable_lookup:
  "usable (fst (get_census_tract_boundary fetch i w (state z) (tract_id z))) = found_boundary fetch i z"
  by (simp add: get_census_tract_boundary_def found_boundary_def split: sum.splits)

lemma lookup_keeps_files:
  "files (snd (get_census_tract_boundary fetch i w s t)) = files w"
  by (simp add: get_census_tract_boundary_def say_def split: sum.splits)

lemma process_zones_ok:
  assumes "\<forall>k < length zs. \<forall>b. found_boundary fetch (i + k) (zs ! k) = Some b \<longrightarrow>
             (\<exists>g. getitem b ''geometry'' = Inr g)"
  shows "\<exists>new w'. process_zones fetch n zs i features success_count w =
             (Inr (features @ new, success_count + found_count fetch i zs), w') \<and>
           length new = length zs \<and>
           (\<forall>k < length zs. found_boundary fetch (i + k) (zs ! k) = None \<longrightarrow>
               new ! k = point_feature (i + k) (zs ! k)) \<and>
           files w' = files w"
  using assms
proof (induction zs arbitrary: i features success_count w)
  case Nil
  then show ?case by simp
next
  case (Cons z zs)
  let ?w1 = "say w (SayVal ''Processing''
                        (JArr [JInt (int i + 1), JInt (int n), JStr (state z), JStr (tract_id z)]))"
  obtain boundary w2 where look: "get_census_tract_boundary fetch i ?w1 (state z) (tract_id z) = (boundary, w2)"
    by (cases "get_census_tract_boundary fetch i ?w1 (state z) (tract_id z)") blast
  have ub: "usable boundary = found_boundary fetch i z"
    using usable_lookup [of fetch i ?w1 z] look by simp
  have fw2: "files w2 = files w"
    using lookup_keeps_files [of fetch i ?w1 "state z" "tract_id z"] look by (simp add: say_def)
  have rest: "\<forall>k < length zs. \<forall>b. found_boundary fetch (Suc i + k) (zs ! k) = Some b \<longrightarrow>
             (\<exists>g. getitem b ''geometry'' = Inr g)"
  proof (intro allI impI)
    fix k b assume "k < length zs" "found_boundary fetch (Suc i + k) (zs ! k) = Some b"
    then show "\<exists>g. getitem b ''geometry'' = Inr g"
      using Cons.prems [rule_format, of "Suc k" b] by simp
  qed
  show ?case
  proof (cases "found_boundary fetch i z")
    case None
    obtain new w' where new: "process_zones fetch n zs (Suc i) (features @ [point_feature i z]) success_count w2 =
          (Inr ((features @ [point_feature i z]) @ new, success_count + found_count fetch (Suc i) zs), w')"
        "length new = length zs"
        "\<forall>k < length zs. found_boundary fetch (Suc i + k) (zs ! k) = None \<longrightarrow>
            new ! k = point_feature (Suc i + k) (zs ! k)"
        "files w' = files w2"
      using Cons.IH [OF rest, of "features @ [point_feature i z]" success_count w2] by blast
    have run: "process_zones fetch n (z # zs) i features success_count w =
          (Inr (features @ (point_feature i z # new), success_count + found_count fetch i (z # zs)), w')"
      using look ub None new(1) by simp
    have each: "\<forall>k < length (z # zs). found_boundary fetch (i + k) ((z # zs) ! k) = None \<longrightarrow>
               (point_feature i z # new) ! k = point_feature (i + k) ((z # zs) ! k)"
    proof (intro allI impI)
      fix k assume "k < length (z # zs)" "found_boundary fetch (i + k) ((z # zs) ! k) = None"
      then show "(point_feature i z # new) ! k = point_feature (i + k) ((z # zs) ! k)"
        using new(3) by (cases k) simp_all
    qed
    show ?thesis
      using run each new(2,4) fw2 by (intro exI [of _ "point_feature i z # new"] exI [of _ w']) simp
  next
    case (Some b)
    then obtain g where g: "getitem b ''geometry'' = Inr g"
      using Cons.prems [rule_format, of 0 b] by auto
    obtain new w' where new: "process_zones fetch n zs (Suc i) (features @ [boundary_feature i z g]) (Suc success_count) w2 =
          (Inr ((features @ [boundary_feature i z g]) @ new, Suc success_count + found_count fetch (Suc i) zs), w')"
        "length new = length zs"
        "\<forall>k < length zs. found_boundary fetch (Suc i + k) (zs ! k) = None \<longrightarrow>
            new ! k = point_feature (Suc i + k) (zs ! k)"
        "files w' = files w2"
      using Cons.IH [OF rest, of "features @ [boundary_feature i z g]" "Suc success_count" w2] by blast
    have run: "process_zones fetch n (z # zs) i features success_count w =
          (Inr (features @ (boundary_feature i z g # new), success_count + found_count fetch i (z # zs)), w')"
      using look ub Some g new(1) by simp
    have each: "\<forall>k < length (z # zs). found_boundary fetch (i + k) ((z # zs) ! k) = None \<longrightarrow>
               (boundary_feature i z g # new) ! k = point_feature (i + k) ((z # zs) ! k)"
    proof (intro allI impI)
      fix k assume "k < length (z # zs)" "found_boundary fetch (i + k) ((z # zs) ! k) = None"
      then show "(boundary_feature i z g # new) ! k = point_feature (i + k) ((z # zs) ! k)"
        using new(3) Some by (cases k) simp_all
    qed
    show ?thesis
      using run each new(2,4) fw2 by (intro exI [of _ "boundary_feature i z g # new"] exI [of _ w']) simp
  qed
qed

lemma point_feature_geometry:
  "getitem (point_feature i z) ''geometry'' =
     Inr (JObj [(''type'', JStr ''Point''), (''coordinates'', JArr [JFloat (- 122.3), JFloat 47.6])])"
  by (simp add: point_feature_def)

text \<open>
  Claim C6, as amended. Let the zones be the first hundred of the table, and let every
  boundary that a lookup finds have a geometry. Then the run completes with one feature
  per processed zone, in order; a zone whose lookup fails or finds nothing (an exception,
  a status other than 200, no features, a false value) gets the placeholder Point at
  \<open>[-122.3, 47.6]\<close>; the document is written; and the last lines of the console report
  the number of features, the file, the number of lookups that found a boundary
  (\<^verbatim>\<open>success_count\<close>) and the number of zones of the table.
\<close>

theorem failed_lookup_gets_placeholder:
  assumes "zones = take 100 (load_qozs_csv rows)"
    and "\<forall>i < length zones. \<forall>b. found_boundary fetch i (zones ! i) = Some b \<longrightarrow>
           (\<exists>g. getitem b ''geometry'' = Inr g)"
  shows "\<exists>features w' before.
           create_qozs_geojson fetch rows w =
             (Inr (JObj [(''type'', JStr ''FeatureCollection''), (''features'', JArr features)]), w') \<and>
           length features = length zones \<and>
           (\<forall>i < length zones. found_boundary fetch i (zones ! i) = None \<longrightarrow>
               features ! i = point_feature i (zones ! i) \<and>
               getitem (features ! i) ''geometry'' =
                 Inr (JObj [(''type'', JStr ''Point''),
                            (''coordinates'', JArr [JFloat (- 122.3), JFloat 47.6])])) \<and>
           files w' = (files w)(''opportunity_zones_complete.geojson'' \<mapsto>
                        Parsed (JObj [(''type'', JStr ''FeatureCollection''), (''features'', JArr features)])) \<and>
           console w' = before @
             [SayNat ''Created GeoJSON with opportunity zones'' (length features),
              Say ''Saved to: opportunity_zones_complete.geojson'',
              SayNat ''Successfully got boundaries for zones'' (found_count fetch 0 zones),
              SayNat ''Total zones in CSV'' (length (load_qozs_csv rows))]"
proof -
  let ?w3 = "say (say (say w (Say ''Loading QOZs CSV data...''))
                   (SayNat ''Found opportunity zones'' (length (load_qozs_csv rows))))
               (SayNat ''Processing first zones'' (length zones))"
  have hyp: "\<forall>k < length zones. \<forall>b. found_boundary fetch (0 + k) (zones ! k) = Some b \<longrightarrow>
             (\<exists>g. getitem b ''geometry'' = Inr g)"
    using assms(2) by simp
  obtain new w4 where run: "process_zones fetch (length zones) zones 0 [] 0 ?w3 =
        (Inr ([] @ new, 0 + found_count fetch 0 zones), w4)"
      "length new = length zones"
      "\<forall>k < length zones. found_boundary fetch (0 + k) (zones ! k) = None \<longrightarrow>
          new ! k = point_feature (0 + k) (zones ! k)"
      "files w4 = files ?w3"
    using process_zones_ok [OF hyp, of "length zones" "[]" 0 ?w3] by blast
  let ?geojson = "JObj [(''type'', JStr ''FeatureCollection''), (''features'', JArr new)]"
  let ?w' = "say (say (say (say (dump_json w4 ''opportunity_zones_complete.geojson'' ?geojson)
                 (SayNat ''Created GeoJSON with opportunity zones'' (length new)))
                 (Say ''Saved to: opportunity_zones_complete.geojson''))
                 (SayNat ''Successfully got boundaries for zones'' (found_count fetch 0 zones)))
                 (SayNat ''Total zones in CSV'' (length (load_qozs_csv rows)))"
  have res: "create_qozs_geojson fetch rows w = (Inr ?geojson, ?w')"
    using run(1) assms(1) by (simp add: create_qozs_geojson_def Let_def)
  have files: "files ?w' = (files w)(''opportunity_zones_complete.geojson'' \<mapsto> Parsed ?geojson)"
    using run(4) by (simp add: say_def dump_json_def)
  have cons: "console ?w' = console w4 @
             [SayNat ''Created GeoJSON with opportunity zones'' (length new),
              Say ''Saved to: opportunity_zones_complete.geojson'',
              SayNat ''Successfully got boundaries for zones'' (found_count fetch 0 zones),
              SayNat ''Total zones in CSV'' (length (load_qozs_csv rows))]"
    by (simp add: say_def dump_json_def)
  have each: "\<forall>i < length zones. found_boundary fetch i (zones ! i) = None \<longrightarrow>
               new ! i = point_feature i (zones ! i) \<and>
               getitem (new ! i) ''geometry'' =
                 Inr (JObj [(''type'', JStr ''Point''),
                            (''coordinates'', JArr [JFloat (- 122.3), JFloat 47.6])])"
    using run(3) point_feature_geometry by simp
  show ?thesis
    using res run(2) each files cons by blast
qed

lemma three_zones_loaded: "take 100 (load_qozs_csv three_rows) = three_zones"
  by (simp add: load_qozs_csv_def three_rows_def three_zones_def valid_states_def)

lemma three_zones_found:
  "found_boundary example_fetch 0 (three_zones ! 0) = None \<and>
   found_boundary example_fetch 1 (three_zones ! 1) = Some tract_boundary \<and>
   found_boundary example_fetch 2 (three_zones ! 2) = None"
  by (simp add: found_boundary_def example_fetch_def boundary_of_response_def usable_def
        tract_boundary_def three_zones_def)

lemma tract_boundary_geometry:
  "getitem tract_boundary ''geometry'' =
     Inr (JObj [(''type'', JStr ''Polygon''), (''coordinates'', JArr [example_ring5])])"
  by (simp add: tract_boundary_def)

theorem failed_lookup_gets_placeholder_witness:
  "three_zones = take 100 (load_qozs_csv three_rows) \<and>
   found_boundary example_fetch 0 (three_zones ! 0) = None \<and>
   found_boundary example_fetch 1 (three_zones ! 1) = Some tract_boundary \<and>
   found_boundary example_fetch 2 (three_zones ! 2) = None \<and>
   getitem tract_boundary ''geometry'' =
     Inr (JObj [(''type'', JStr ''Polygon''), (''coordinates'', JArr [example_ring5])]) \<and>
   (\<exists>features w' before.
           create_qozs_geojson example_fetch three_rows empty_world =
             (Inr (JObj [(''type'', JStr ''FeatureCollection''), (''features'', JArr features)]), w') \<and>
           length features = length three_zones \<and>
           (\<forall>i < length three_zones. found_boundary example_fetch i (three_zones ! i) = None \<longrightarrow>
               features ! i = point_feature i (three_zones ! i) \<and>
               getitem (features ! i) ''geometry'' =
                 Inr (JObj [(''type'', JStr ''Point''),
                            (''coordinates'', JArr [JFloat (- 122.3), JFloat 47.6])])) \<and>
           files w' = (files empty_world)(''opportunity_zones_complete.geojson'' \<mapsto>
                        Parsed (JObj [(''type'', JStr ''FeatureCollection''), (''features'', JArr features)])) \<and>
           console w' = before @
             [SayNat ''Created GeoJSON with opportunity zones'' (length features),
              Say ''Saved to: opportunity_zones_complete.geojson'',
              SayNat ''Successfully got boundaries for zones'' (found_count example_fetch 0 three_zones),
              SayNat ''Total zones in CSV'' (length (load_qozs_csv three_rows))])"
proof -
  have h1: "three_zones = take 100 (load_qozs_csv three_rows)"
    using three_zones_loaded by simp
  have len: "length three_zones = 3"
    by (simp add: three_zones_def)
  have h2: "\<forall>i < length three_zones. \<forall>b. found_boundary example_fetch i (three_zones ! i) = Some b \<longrightarrow>
           (\<exists>g. getitem b ''geometry'' = Inr g)"
  proof (intro allI impI)
    fix i b assume i: "i < length three_zones" and b: "found_boundary example_fetch i (three_zones ! i) = Some b"
    have "i = 0 \<or> i = 1 \<or> i = 2" using i len by auto
    then have "b = tract_boundary" using b three_zones_found by auto
    then show "\<exists>g. getitem b ''geometry'' = Inr g" using tract_boundary_geometry by simp
  qed
  show ?thesis
    using failed_lookup_gets_placeholder [OF h1 h2, of empty_world] h1 three_zones_found
      tract_boundary_geometry by blast
qed

text \<open>
  Claim C6 as stated fails: in a run of three zones of which two lookups fail, the only
  counter is \<^verbatim>\<open>success_count\<close>, and the console reports 3 features, 1 success and 3
  zones; the number of failures is neither counted nor printed.
\<close>

theorem no_failure_counter_counterexample:
  "found_boundary example_fetch 0 (three_zones ! 0) = None \<and>
   found_boundary example_fetch 2 (three_zones ! 2) = None \<and>
   console (snd (create_qozs_geojson example_fetch three_rows empty_world)) =
     [Say ''Loading QOZs CSV data...'',
      SayNat ''Found opportunity zones'' 3,
      SayNat ''Processing first zones'' 3,
      SayVal ''Processing'' (JArr [JInt 1, JInt 3, JStr ''Alabama'', JStr ''01001020700'']),
      SayLookupError ''Alabama'' ''01001020700'' (LibraryError ''timed out''),
      SayVal ''Processing'' (JArr [JInt 2, JInt 3, JStr ''Alaska'', JStr ''02020000600'']),
      SayVal ''Processing'' (JArr [JInt 3, JInt 3, JStr ''Wyoming'', JStr ''56001963900'']),
      SayNat ''Created GeoJSON with opportunity zones'' 3,
      Say ''Saved to: opportunity_zones_complete.geojson'',
      SayNat ''Successfully got boundaries for zones'' 1,
      SayNat ''Total zones in CSV'' 3]"
proof -
  have zones: "load_qozs_csv three_rows = three_zones"
    by (simp add: load_qozs_csv_def three_rows_def three_zones_def valid_states_def)
  have "console (snd (create_qozs_geojson example_fetch three_rows empty_world)) =
     [Say ''Loading QOZs CSV data...'',
      SayNat ''Found opportunity zones'' 3,
      SayNat ''Processing first zones'' 3,
      SayVal ''Processing'' (JArr [JInt 1, JInt 3, JStr ''Alabama'', JStr ''01001020700'']),
      SayLookupError ''Alabama'' ''01001020700'' (LibraryError ''timed out''),
      SayVal ''Processing'' (JArr [JInt 2, JInt 3, JStr ''Alaska'', JStr ''02020000600'']),
      SayVal ''Processing'' (JArr [JInt 3, JInt 3, JStr ''Wyoming'', JStr ''56001963900'']),
      SayNat ''Created GeoJSON with opportunity zones'' 3,
      Say ''Saved to: opportunity_zones_complete.geojson'',
      SayNat ''Successfully got boundaries for zones'' 1,
      SayNat ''Total zones in CSV'' 3]"
    unfolding create_qozs_geojson_def zones
    by (simp add: three_zones_def Let_def say_def dump_json_def empty_world_def
          get_census_tract_boundary_def boundary_of_response_def example_fetch_def usable_def
          tract_boundary_def)
  then show ?thesis using three_zones_found by simp
qed

section \<open>Properties of the economic table\<close>

lemma map_result_total:
  "(\<And>x. f x = Inr (g x)) \<Longrightarrow> map_result f xs = Inr (map g xs)"
  by (induction xs) simp_all

lemma null_if_missing_text: "null_if_missing other (JStr (get_text d country)) = indicator_text d country"
  by (simp add: null_if_missing_def get_text_def indicator_text_def split: option.splits)

lemma writerow_country:
  "writerow fieldnames (country_row other gdp_growth employment_rate today country) =
     Inr [country, indicator_text gdp_growth country, indicator_text employment_rate country,
          [], [], [], today]"
  by (simp add: writerow_def fieldnames_def country_row_def null_if_missing_text)

text \<open>
  Claim C9, as amended. The table starts with the fixed header, and the row of a country
  has its seven fields in the header's order: the country, the gdp growth and the
  employment rate (the null marker \<^verbatim>\<open>NULL\<close> when the indicator has no value for the
  country), three empty fields for property appreciation, builder accessibility and
  international accessibility, and the date.
\<close>

theorem economic_table_rows:
  "economic_table other gdp_growth employment_rate today countries =
     Inr ([''region'', ''gdp_growth'', ''employment_rate'', ''property_appreciation'',
           ''builder_accessibility'', ''international_accessibility'', ''last_updated''] #
          map (\<lambda>country. [country, indicator_text gdp_growth country, indicator_text employment_rate country,
                           [], [], [], today]) countries)"
  using map_result_total [of "\<lambda>country. writerow fieldnames
                          (country_row other gdp_growth employment_rate today country)"
        "\<lambda>country. [country, indicator_text gdp_growth country, indicator_text employment_rate country,
                           [], [], [], today]" countries, OF writerow_country]
  by (simp add: economic_table_def fieldnames_def)

theorem economic_table_rows_witness:
  "economic_table (\<lambda>v. []) [(''france'', ''2.5'')] [] ''2026-11-04'' [''france'', ''atlantis''] =
     Inr [[''region'', ''gdp_growth'', ''employment_rate'', ''property_appreciation'',
           ''builder_accessibility'', ''international_accessibility'', ''last_updated''],
          [''france'', ''2.5'', ''NULL'', [], [], [], ''2026-11-04''],
          [''atlantis'', ''NULL'', ''NULL'', [], [], [], ''2026-11-04'']]"
  using economic_table_rows [of "\<lambda>v. []" "[(''france'', ''2.5'')]" "[]" "''2026-11-04''" "[''france'', ''atlantis'']"]
  by (simp add: indicator_text_def)

text \<open>
  Claim C9 as stated fails: the property appreciation of a row, for which the script has no
  value, is written as the empty text, not as the null marker.
\<close>

theorem placeholder_columns_counterexample:
  "economic_table (\<lambda>v. []) [(''france'', ''2.5'')] [] ''2026-11-04'' [''france''] =
     Inr [[''region'', ''gdp_growth'', ''employment_rate'', ''property_appreciation'',
           ''builder_accessibility'', ''international_accessibility'', ''last_updated''],
          [''france'', ''2.5'', ''NULL'', [], [], [], ''2026-11-04'']] \<and>
   [''france'', ''2.5'', ''NULL'', [], [], [], ''2026-11-04''] ! 3 \<noteq> ''NULL''"
  by (simp add: economic_table_def writerow_def fieldnames_def country_row_def null_if_missing_def
        get_text_def)

section \<open>Properties of the tabular join\<close>

lemma count_list_concat: "count_list (concat xss) x = sum_list (map (\<lambda>xs. count_list xs x) xss)"
  by (induction xss) simp_all

lemma count_list_filter: "count_list (filter P xs) x = (if P x then count_list xs x else 0)"
  by (induction xs) auto

lemma zone_rows_of_merge:
  "map snd (merge_inner left right) = concat (map (\<lambda>l. filter (\<lambda>r. fst r = fst l) right) left)"
  by (simp add: merge_inner_def map_concat comp_def)

lemma count_matches:
  assumes "distinct (map fst left)"
  shows "sum_list (map (\<lambda>l. if k = fst l then n else 0) left) = (if k \<in> fst ` set left then n else (0::nat))"
  using assms by (induction left) auto

lemma length_filter_disjoint:
  assumes "\<forall>x \<in> set xs. \<not> (P x \<and> Q x)"
  shows "length (filter (\<lambda>x. P x \<or> Q x) xs) = length (filter P xs) + length (filter Q xs)"
  using assms by (induction xs) auto

lemma length_merge_inner:
  assumes "distinct (map fst left)"
  shows "length (merge_inner left right) = length (filter (\<lambda>r. fst r \<in> fst ` set left) right)"
  using assms
proof (induction left)
  case Nil
  then show ?case by (simp add: merge_inner_def)
next
  case (Cons l left)
  have disj: "\<forall>r \<in> set right. \<not> (fst r = fst l \<and> fst r \<in> fst ` set left)"
    using Cons.prems by auto
  have "length (merge_inner (l # left) right) =
          length (filter (\<lambda>r. fst r = fst l) right) + length (merge_inner left right)"
    by (simp add: merge_inner_def)
  also have "\<dots> = length (filter (\<lambda>r. fst r = fst l) right) +
                  length (filter (\<lambda>r. fst r \<in> fst ` set left) right)"
    using Cons by simp
  also have "\<dots> = length (filter (\<lambda>r. fst r = fst l \<or> fst r \<in> fst ` set left) right)"
    using length_filter_disjoint [OF disj] by simp
  finally show ?case by simp
qed

lemma count_merge_inner:
  assumes "distinct (map fst left)"
  shows "count_list (map snd (merge_inner left right)) r =
           (if fst r \<in> fst ` set left then count_list right r else 0)"
proof -
  have "count_list (map snd (merge_inner left right)) r =
          sum_list (map (\<lambda>l. if fst r = fst l then count_list right r else 0) left)"
    by (simp add: zone_rows_of_merge count_list_concat count_list_filter comp_def)
  then show ?thesis using count_matches [OF assms] by simp
qed

text \<open>
  Claim C8. When the tract identifiers of the boundary table are distinct, the join has as
  many rows as there are zone rows whose tract code, padded with zeros to 11 characters,
  is a tract identifier; every such zone row occurs in the output exactly as often as in
  the zone table (once, for a row that is there once) and every other zone row not at
  all; and every output row pairs a tract with a zone row of the same identifier.
\<close>

theorem tabular_join_complete:
  assumes "distinct (map fst tracts)"
  shows "length (qozs_to_geojson_bulk tracts qozs) =
           length (filter (\<lambda>q. zfill 11 (fst q) \<in> fst ` set tracts) qozs) \<and>
         (\<forall>q. count_list (map snd (qozs_to_geojson_bulk tracts qozs)) q =
                (if fst q \<in> fst ` set tracts then count_list (pad_zones qozs) q else 0)) \<and>
         (\<forall>t q. (t, q) \<in> set (qozs_to_geojson_bulk tracts qozs) \<longrightarrow>
                  t \<in> set tracts \<and> q \<in> set (pad_zones qozs) \<and> fst t = fst q)"
proof -
  have "length (filter (\<lambda>r. fst r \<in> fst ` set tracts) (pad_zones qozs)) =
          length (filter (\<lambda>q. zfill 11 (fst q) \<in> fst ` set tracts) qozs)"
    by (simp add: pad_zones_def filter_map comp_def)
  then have "length (qozs_to_geojson_bulk tracts qozs) =
           length (filter (\<lambda>q. zfill 11 (fst q) \<in> fst ` set tracts) qozs)"
    using length_merge_inner [OF assms, of "pad_zones qozs"] by (simp add: qozs_to_geojson_bulk_def)
  moreover have "\<forall>q. count_list (map snd (qozs_to_geojson_bulk tracts qozs)) q =
                (if fst q \<in> fst ` set tracts then count_list (pad_zones qozs) q else 0)"
    using count_merge_inner [OF assms, of "pad_zones qozs"] by (simp add: qozs_to_geojson_bulk_def)
  moreover have "\<forall>t q. (t, q) \<in> set (qozs_to_geojson_bulk tracts qozs) \<longrightarrow>
                  t \<in> set tracts \<and> q \<in> set (pad_zones qozs) \<and> fst t = fst q"
    by (auto simp: qozs_to_geojson_bulk_def merge_inner_def)
  ultimately show ?thesis by blast
qed

lemma bulk_example:
  "qozs_to_geojson_bulk example_tracts example_zones =
     [((''01001020700'', ''polygon A''), (''01001020700'', ''Alabama'')),
      ((''56001963900'', ''polygon B''), (''56001963900'', ''Wyoming''))]"
  by (simp add: qozs_to_geojson_bulk_def merge_inner_def pad_zones_def zfill_def
        example_tracts_def example_zones_def)

theorem tabular_join_complete_witness:
  "distinct (map fst example_tracts) \<and>
   length (qozs_to_geojson_bulk example_tracts example_zones) = 2 \<and>
   length (filter (\<lambda>q. zfill 11 (fst q) \<in> fst ` set example_tracts) example_zones) = 2 \<and>
   count_list (map snd (qozs_to_geojson_bulk example_tracts example_zones)) (''01001020700'', ''Alabama'') = 1 \<and>
   count_list (map snd (qozs_to_geojson_bulk example_tracts example_zones)) (''72001956300'', ''Puerto Rico'') = 0"
proof -
  have d: "distinct (map fst example_tracts)"
    by (simp add: example_tracts_def)
  have p: "pad_zones example_zones =
     [(''01001020700'', ''Alabama''), (''72001956300'', ''Puerto Rico''), (''56001963900'', ''Wyoming'')]"
    by (simp add: pad_zones_def zfill_def example_zones_def)
  have keys: "fst ` set example_tracts = {''01001020700'', ''56001963900''}"
    by (simp add: example_tracts_def)
  have n: "length (filter (\<lambda>q. zfill 11 (fst q) \<in> fst ` set example_tracts) example_zones) = 2"
    unfolding keys by (simp add: zfill_def example_zones_def)
  show ?thesis
    using tabular_join_complete [OF d, of example_zones] d n by (simp add: p keys)
qed

section \<open>When the conversion returns\<close>

lemma returns_Inr: "returns r \<longleftrightarrow> (\<exists>v. r = Inr v)"
  by (cases r) (simp_all add: returns_def)

lemma map_result_returns:
  "\<forall>x \<in> set xs. returns (f x) \<Longrightarrow> returns (map_result f xs)"
  by (induction xs) (auto simp: returns_Inr)

lemma convert_ring_loop_returns:
  "\<forall>j. i \<le> j \<and> j < length ring \<longrightarrow> returns (convert_coord transform (ring ! j)) \<Longrightarrow>
     returns (convert_ring_loop transform ring i)"
proof (induction transform ring i rule: convert_ring_loop.induct)
  case (1 transform ring i)
  show ?case
  proof (cases "i < length ring")
    case False
    then show ?thesis by (simp add: convert_ring_loop.simps [of transform ring i] returns_def)
  next
    case True
    then obtain c where c: "convert_coord transform (ring ! i) = Inr c"
      using "1.prems" by (auto simp: returns_Inr)
    have "\<forall>j. Suc i \<le> j \<and> j < length (ring[i := c]) \<longrightarrow>
            returns (convert_coord transform (ring[i := c] ! j))"
      using "1.prems" by simp
    then have "returns (convert_ring_loop transform (ring[i := c]) (Suc i))"
      using "1.IH" [OF True c] by blast
    then show ?thesis
      using True c by (simp add: convert_ring_loop.simps [of transform ring i])
  qed
qed

lemma convert_ring_returns:
  assumes "ring_converts transform ring"
  shows "returns (convert_ring transform ring)"
proof -
  obtain coords where ring: "ring = JArr coords"
    and all: "list_all (\<lambda>c. returns (convert_coord transform c)) coords"
    using assms by (cases ring) (simp_all add: ring_converts_def)
  have "\<forall>j. 0 \<le> j \<and> j < length coords \<longrightarrow> returns (convert_coord transform (coords ! j))"
    using all by (simp add: list_all_length)
  then have "returns (convert_ring_loop transform coords 0)"
    by (rule convert_ring_loop_returns)
  then show ?thesis unfolding ring by (auto simp: convert_ring_def returns_Inr)
qed

lemma convert_polygon_returns:
  assumes "polygon_converts transform polygon"
  shows "returns (convert_polygon transform polygon)"
proof -
  obtain rings where polygon: "polygon = JArr rings"
    and all: "list_all (ring_converts transform) rings"
    using assms by (cases polygon) (simp_all add: polygon_converts_def)
  have "\<forall>ring \<in> set rings. returns (convert_ring transform ring)"
    using all convert_ring_returns by (simp add: list_all_iff)
  then have "returns (map_result (convert_ring transform) rings)"
    by (rule map_result_returns)
  then show ?thesis unfolding polygon by (auto simp: convert_polygon_def returns_Inr)
qed

lemma convert_feature_returns:
  assumes "transformable transform feature"
  shows "returns (convert_feature transform feature)"
proof -
  obtain geometry ty where g: "getitem feature ''geometry'' = Inr geometry" "getitem geometry ''type'' = Inr ty"
    using assms by (auto simp: transformable_def geometry_type_def split: sum.splits)
  show ?thesis
  proof (cases "ty = JStr ''MultiPolygon''")
    case False
    then show ?thesis using g by (simp add: convert_feature_def returns_def)
  next
    case True
    then have mp: "is_multipolygon feature"
      using g by (simp add: is_multipolygon_def geometry_type_def)
    then have "case coordinates_of feature of
          Some (JArr polygons) \<Rightarrow> list_all (polygon_converts transform) polygons
        | _ \<Rightarrow> False"
      using assms by (simp add: transformable_def)
    then obtain polygons where c: "coordinates_of feature = Some (JArr polygons)"
      and all: "list_all (polygon_converts transform) polygons"
      by (cases "coordinates_of feature") (auto split: json.splits)
    have gc: "getitem geometry ''coordinates'' = Inr (JArr polygons)"
      using c g(1) by (auto simp: coordinates_of_def split: sum.splits)
    have "\<forall>polygon \<in> set polygons. returns (convert_polygon transform polygon)"
      using all convert_polygon_returns by (simp add: list_all_iff)
    then have "returns (map_result (convert_polygon transform) polygons)"
      by (rule map_result_returns)
    then obtain polygons' where "map_result (convert_polygon transform) polygons = Inr polygons'"
      by (auto simp: returns_Inr)
    then show ?thesis
      using g True gc by (simp add: convert_feature_def returns_def)
  qed
qed

lemma convert_document_returns:
  assumes "getitem geojson ''features'' = Inr (JArr features)"
    and "\<forall>f \<in> set features. transformable transform f"
  shows "returns (convert_document transform geojson)"
proof -
  obtain d where d: "geojson = JObj d"
    using assms(1) by (cases geojson) auto
  have "\<forall>f \<in> set features. returns (convert_feature transform f)"
    using assms(2) convert_feature_returns by blast
  then have "returns (map_result (convert_feature transform) features)"
    by (rule map_result_returns)
  then obtain features' where "map_result (convert_feature transform) features = Inr features'"
    by (auto simp: returns_Inr)
  then show ?thesis
    using assms(1) unfolding d by (simp add: convert_document_def returns_def)
qed

end
